theory Spec2Isabelle
  imports Complex_Main
begin

section \<open>WalkerEnv: a shallow embedding of \<^verbatim>\<open>rg2/csrc/src/WalkerEnv.cpp\<close>\<close>

text \<open>
  Conventions of the embedding.
  \<^item> A C++ \<^verbatim>\<open>double\<close> or \<^verbatim>\<open>float\<close> is the \<^typ>\<open>real\<close> number it stands for. In the vector
    arithmetic (targets, observation, reward) the operations are exact and the casts
    \<^verbatim>\<open>cast<double>()\<close>, \<^verbatim>\<open>cast<float>()\<close> and \<^verbatim>\<open>float(...)\<close> are the identity. In the bound
    of the integration loop, where the value is truncated to an integer, every operation is
    rounded to the nearest \<^verbatim>\<open>double\<close> as IEEE 754 prescribes (\<open>round_double\<close> below).
  \<^item> An \<^verbatim>\<open>Eigen::VectorXd\<close> is a \<^typ>\<open>real list\<close>; the fixed-size three-vectors, the
    quaternion and the rotation matrix are tuples.
  \<^item> \<^verbatim>\<open>assert\<close> and Eigen's own range and size assertions are modelled as enabled (the
    sources do not define \<^verbatim>\<open>NDEBUG\<close>): a failed assertion aborts the run.
  \<^item> Dereferencing the empty \<^verbatim>\<open>server_\<close> pointer and converting a non-finite or
    unrepresentable \<^verbatim>\<open>double\<close> to \<^verbatim>\<open>int\<close> have no defined result in C++; the model
    reports them as aborts as well.
  \<^item> A member function is a function from the object's state to an \<open>outcome\<close>: either it
    returns a value and the new state, or it aborts with an error; the state carried by an
    abort is the state in which the failing statement was started.
  \<^item> The physics engine and the visualisation server are external. Their state is kept in
    the records \<open>backend\<close> and \<open>server\<close>; \<^verbatim>\<open>World::integrate\<close>, \<^verbatim>\<open>raisim::quatToRotMat\<close> and
    the loading of a robot description are parameters of the functions that call them.
\<close>

subsection \<open>Errors and outcomes\<close>

datatype error =
    AssertionFailed string
  | NullPointerDereference
  | UndefinedConversion

datatype ('a, 's) outcome =
    Returns (result: 'a) (final_state: 's)
  | Aborts (failure: error) (final_state: 's)

definition checked :: "error + 'a \<Rightarrow> 's \<Rightarrow> ('a \<Rightarrow> ('r, 's) outcome) \<Rightarrow> ('r, 's) outcome" where
  "checked m s k = (case m of Inl err \<Rightarrow> Aborts err s | Inr x \<Rightarrow> k x)"

definition bindE :: "error + 'a \<Rightarrow> ('a \<Rightarrow> error + 'b) \<Rightarrow> error + 'b" where
  "bindE m k = (case m of Inl err \<Rightarrow> Inl err | Inr x \<Rightarrow> k x)"

subsection \<open>Vectors and matrices (Eigen, raisim::Vec, raisim::Mat)\<close>

type_synonym vec = "real list"
type_synonym vec3 = "real \<times> real \<times> real"
type_synonym quat = "real \<times> real \<times> real \<times> real"
type_synonym mat3 = "vec3 \<times> vec3 \<times> vec3"

definition vec3_list :: "vec3 \<Rightarrow> vec" where
  "vec3_list v = (case v of (x, y, z) \<Rightarrow> [x, y, z])"

text \<open>\<^verbatim>\<open>v.setZero(n)\<close>, \<^verbatim>\<open>VectorXd::Zero(n)\<close>, \<^verbatim>\<open>VectorXd v(n); v.setZero()\<close>.\<close>

definition setZero :: "int \<Rightarrow> error + vec" where
  "setZero n = (if 0 \<le> n then Inr (replicate (nat n) 0)
                else Inl (AssertionFailed ''size >= 0''))"

text \<open>\<^verbatim>\<open>v[i]\<close>.\<close>

definition coeff :: "vec \<Rightarrow> int \<Rightarrow> error + real" where
  "coeff v i = (if 0 \<le> i \<and> i < int (length v) then Inr (v ! nat i)
                else Inl (AssertionFailed ''index >= 0 && index < size()''))"

text \<open>\<^verbatim>\<open>v.tail(n)\<close> read.\<close>

definition tail :: "int \<Rightarrow> vec \<Rightarrow> error + vec" where
  "tail n v = (if 0 \<le> n \<and> n \<le> int (length v) then Inr (drop (length v - nat n) v)
               else Inl (AssertionFailed ''tail: block out of range''))"

text \<open>\<^verbatim>\<open>v.tail(n) = src\<close>: a block cannot be resized, the sizes must agree.\<close>

definition assign_tail :: "int \<Rightarrow> vec \<Rightarrow> vec \<Rightarrow> error + vec" where
  "assign_tail n v src =
     (if 0 \<le> n \<and> n \<le> int (length v)
      then (if int (length src) = n then Inr (take (length v - nat n) v @ src)
            else Inl (AssertionFailed ''rows() == other.rows()''))
      else Inl (AssertionFailed ''tail: block out of range''))"

text \<open>\<^verbatim>\<open>v.tail(n).setConstant(c)\<close>.\<close>

definition tail_setConstant :: "int \<Rightarrow> real \<Rightarrow> vec \<Rightarrow> error + vec" where
  "tail_setConstant n c v =
     (if 0 \<le> n \<and> n \<le> int (length v)
      then Inr (take (length v - nat n) v @ replicate (nat n) c)
      else Inl (AssertionFailed ''tail: block out of range''))"

text \<open>\<^verbatim>\<open>v.segment(start, 3)\<close>.\<close>

definition segment3 :: "int \<Rightarrow> vec \<Rightarrow> error + vec3" where
  "segment3 start v =
     (if 0 \<le> start \<and> start + 3 \<le> int (length v)
      then Inr (v ! nat start, v ! nat (start + 1), v ! nat (start + 2))
      else Inl (AssertionFailed ''segment: block out of range''))"

text \<open>\<^verbatim>\<open>a.cwiseProduct(b)\<close> and \<^verbatim>\<open>a += b\<close>.\<close>

definition cwiseProduct :: "vec \<Rightarrow> vec \<Rightarrow> error + vec" where
  "cwiseProduct a b = (if length a = length b then Inr (map2 (*) a b)
                       else Inl (AssertionFailed ''aLhs.rows() == aRhs.rows()''))"

definition add_assign :: "vec \<Rightarrow> vec \<Rightarrow> error + vec" where
  "add_assign a b = (if length a = length b then Inr (map2 (+) a b)
                     else Inl (AssertionFailed ''dst.rows() == src.rows()''))"

text \<open>\<^verbatim>\<open>v.squaredNorm()\<close>.\<close>

definition squaredNorm :: "vec \<Rightarrow> real" where
  "squaredNorm v = sum_list (map (\<lambda>x. x * x) v)"

text \<open>The comma initialiser \<^verbatim>\<open>v << c0, c1, ...\<close>: it fills \<open>v\<close>, whose size stays as it is, and
  asserts that exactly \<open>v.size()\<close> coefficients were given.\<close>

definition comma_init :: "vec \<Rightarrow> vec \<Rightarrow> error + vec" where
  "comma_init v cs = (if length cs = length v then Inr cs
                      else Inl (AssertionFailed ''comma initializer: wrong number of coefficients''))"

text \<open>\<^verbatim>\<open>rot.e().transpose() * v\<close> and \<^verbatim>\<open>rot.e().row(2).transpose()\<close>; a matrix is the triple of
  its rows.\<close>

definition transpose_mult :: "mat3 \<Rightarrow> vec3 \<Rightarrow> vec3" where
  "transpose_mult m v =
     (case m of ((r00, r01, r02), (r10, r11, r12), (r20, r21, r22)) \<Rightarrow>
      case v of (x, y, z) \<Rightarrow>
        (r00 * x + r10 * y + r20 * z,
         r01 * x + r11 * y + r21 * z,
         r02 * x + r12 * y + r22 * z))"

definition row2 :: "mat3 \<Rightarrow> vec3" where
  "row2 m = (case m of (r0, r1, r2) \<Rightarrow> r2)"

text \<open>The conversion \<^verbatim>\<open>int(x)\<close> of a finite \<^verbatim>\<open>double\<close>: truncation towards zero, defined only
  when the truncated value fits a 32-bit \<^verbatim>\<open>int\<close>.\<close>

definition double_to_int :: "real \<Rightarrow> error + int" where
  "double_to_int x =
     (let t = (if 0 \<le> x then \<lfloor>x\<rfloor> else \<lceil>x\<rceil>)
      in if - (2 ^ 31) \<le> t \<and> t < 2 ^ 31 then Inr t else Inl UndefinedConversion)"

subsection \<open>The external collaborators\<close>

text \<open>The state of the raisim world and its one robot, as far as \<^verbatim>\<open>WalkerEnv\<close> reads and writes
  it through \<^verbatim>\<open>world_\<close> and \<^verbatim>\<open>robot_\<close>.\<close>

datatype controlMode = FORCE_AND_TORQUE | PD_PLUS_FEEDFORWARD_TORQUE

record backend =
  b_gcDim :: int
  b_dof :: int
  b_bodyIdx :: "string \<Rightarrow> nat"
  b_name :: string
  b_controlMode :: controlMode
  b_ground :: bool
  b_timeStep :: real
  b_gc :: vec
  b_gv :: vec
  b_pGain :: vec
  b_dGain :: vec
  b_pTarget :: vec
  b_vTarget :: vec
  b_generalizedForce :: vec
  b_contacts :: "nat list"

text \<open>\<open>b_contacts\<close> is \<^verbatim>\<open>robot_->getContacts()\<close>, each contact given by its
  \<^verbatim>\<open>getlocalBodyIndex()\<close>.\<close>

definition setState :: "vec \<Rightarrow> vec \<Rightarrow> backend \<Rightarrow> backend" where
  "setState c v b = b\<lparr>b_gc := c, b_gv := v\<rparr>"

definition setPdGains_backend :: "vec \<Rightarrow> vec \<Rightarrow> backend \<Rightarrow> backend" where
  "setPdGains_backend p d b = b\<lparr>b_pGain := p, b_dGain := d\<rparr>"

definition setPdTarget :: "vec \<Rightarrow> vec \<Rightarrow> backend \<Rightarrow> backend" where
  "setPdTarget p v b = b\<lparr>b_pTarget := p, b_vTarget := v\<rparr>"

definition setGeneralizedForce :: "vec \<Rightarrow> backend \<Rightarrow> backend" where
  "setGeneralizedForce f b = b\<lparr>b_generalizedForce := f\<rparr>"

text \<open>The \<^verbatim>\<open>raisim::RaisimServer\<close> behind \<^verbatim>\<open>server_\<close>.\<close>

record server =
  sv_launched :: bool
  sv_killed :: bool
  sv_focus :: "string option"
  sv_hibernating :: bool
  sv_recording :: "string option"
  sv_mutexLocked :: bool

definition new_server :: server where
  "new_server = \<lparr>sv_launched = False, sv_killed = False, sv_focus = None,
                 sv_hibernating = False, sv_recording = None, sv_mutexLocked = False\<rparr>"

subsection \<open>The environment\<close>

text \<open>The data members of \<^verbatim>\<open>WalkerEnv\<close>. \<open>server = None\<close> is the empty \<^verbatim>\<open>server_\<close> pointer.\<close>

record env =
  resourceDir :: string
  visualizable :: bool
  backend :: backend
  server :: "server option"
  gcDim :: int
  gvDim :: int
  nJoints :: int
  obDim :: int
  actionDim :: int
  gc :: vec
  gv :: vec
  gcInit :: vec
  gvInit :: vec
  pTarget :: vec
  vTarget :: vec
  actionMean :: vec
  actionStd :: vec
  obDouble :: vec
  bodyLinearVel :: vec3
  bodyAngularVel :: vec3
  footIndices :: "nat set"
  control_dt :: real
  simulation_dt :: real
  terminalRewardCoeff :: real

text \<open>The header \<^verbatim>\<open>WalkerEnv.hpp\<close> is not among the sources. The three members it
  initialises, \<^verbatim>\<open>control_dt_\<close>, \<^verbatim>\<open>simulation_dt_\<close> and \<^verbatim>\<open>terminalRewardCoeff_\<close>, are
  parameters of the constructor here.\<close>

record header_defaults =
  hd_control_dt :: real
  hd_simulation_dt :: real
  hd_terminalRewardCoeff :: real

subsection \<open>Construction\<close>

text \<open>\<open>load dir\<close> is the world that raisim builds from the robot description at \<open>dir\<close>.
  The members that the constructor leaves uninitialised until a later call
  (\<^verbatim>\<open>obDim_\<close>, \<^verbatim>\<open>actionDim_\<close>) start at 0 here, the vectors start empty.\<close>

definition createWorldAndRobot ::
  "(string \<Rightarrow> backend) \<Rightarrow> string \<Rightarrow> bool \<Rightarrow> header_defaults \<Rightarrow> env" where
  "createWorldAndRobot load dir vis dflt =
     (let world = (load dir)\<lparr>b_name := ''robot'',
                              b_controlMode := PD_PLUS_FEEDFORWARD_TORQUE,
                              b_ground := True\<rparr>
      in \<lparr>resourceDir = dir, visualizable = vis, backend = world, server = None,
          gcDim = b_gcDim world, gvDim = b_dof world, nJoints = b_dof world - 6,
          obDim = 0, actionDim = 0,
          gc = [], gv = [], gcInit = [], gvInit = [], pTarget = [], vTarget = [],
          actionMean = [], actionStd = [], obDouble = [],
          bodyLinearVel = (0, 0, 0), bodyAngularVel = (0, 0, 0),
          footIndices = {},
          control_dt = hd_control_dt dflt, simulation_dt = hd_simulation_dt dflt,
          terminalRewardCoeff = hd_terminalRewardCoeff dflt\<rparr>)"

definition initializeContainers :: "env \<Rightarrow> error + env" where
  "initializeContainers e =
     bindE (setZero (gcDim e)) (\<lambda>zc.
     bindE (setZero (gvDim e)) (\<lambda>zv.
       let e1 = e\<lparr>gc := zc, gcInit := zc, gv := zv, gvInit := zv,
                  pTarget := zc, vTarget := zv\<rparr>
       in bindE (comma_init (gcInit e1)
                   [0, 0, 0.50, 1.0, 0.0, 0.0, 0.0, 0.03, 0.4, - 0.8, - 0.03, 0.4, - 0.8,
                    0.03, - 0.4, 0.8, - 0.03, - 0.4, 0.8])
            (\<lambda>g. Inr (e1\<lparr>gcInit := g\<rparr>))))"

definition setPdGains :: "env \<Rightarrow> error + env" where
  "setPdGains e =
     bindE (setZero (gvDim e)) (\<lambda>z.
     bindE (tail_setConstant (nJoints e) 50.0 z) (\<lambda>jointPgain.
     bindE (tail_setConstant (nJoints e) 0.2 z) (\<lambda>jointDgain.
     bindE (setZero (gvDim e)) (\<lambda>zf.
       Inr (e\<lparr>backend :=
                 setGeneralizedForce zf
                   (setPdGains_backend jointPgain jointDgain (backend e))\<rparr>)))))"

definition initializeObservationSpace :: "env \<Rightarrow> error + env" where
  "initializeObservationSpace e =
     (let e1 = e\<lparr>obDim := 1 + 3 + 3 + 3 + nJoints e * 2, actionDim := nJoints e\<rparr>
      in bindE (setZero (actionDim e1)) (\<lambda>zm.
         bindE (setZero (actionDim e1)) (\<lambda>zs.
         bindE (setZero (obDim e1)) (\<lambda>zo.
         bindE (tail (nJoints e1) (gcInit e1)) (\<lambda>m.
           let e2 = e1\<lparr>actionMean := zm, actionStd := zs, obDouble := zo\<rparr>;
               e3 = e2\<lparr>actionMean := m\<rparr>;
               action_std = 0.3;
               e4 = e3\<lparr>actionStd := replicate (length (actionStd e3)) action_std\<rparr>;
               idx = b_bodyIdx (backend e4)
           in Inr (e4\<lparr>footIndices :=
                        insert (idx ''RH_SHANK'')
                          (insert (idx ''LH_SHANK'')
                             (insert (idx ''RF_SHANK'')
                                (insert (idx ''LF_SHANK'') (footIndices e4))))\<rparr>))))))"

definition initializeVisualization :: "env \<Rightarrow> env" where
  "initializeVisualization e =
     e\<lparr>server := Some (new_server\<lparr>sv_launched := True,
                                   sv_focus := Some (b_name (backend e))\<rparr>)\<rparr>"

definition WalkerEnv ::
  "(string \<Rightarrow> backend) \<Rightarrow> string \<Rightarrow> bool \<Rightarrow> header_defaults \<Rightarrow> error + env" where
  "WalkerEnv load dir vis dflt =
     bindE (initializeContainers (createWorldAndRobot load dir vis dflt)) (\<lambda>e1.
     bindE (setPdGains e1) (\<lambda>e2.
     bindE (initializeObservationSpace e2) (\<lambda>e3.
       Inr (if visualizable e3 then initializeVisualization e3 else e3))))"

text \<open>The destructor.\<close>

definition destroy :: "env \<Rightarrow> env" where
  "destroy e = (case server e of None \<Rightarrow> e
                | Some s \<Rightarrow> e\<lparr>server := Some (s\<lparr>sv_killed := True\<rparr>)\<rparr>)"

subsection \<open>Member functions\<close>

definition setInitConstants ::
  "env \<Rightarrow> vec \<Rightarrow> vec \<Rightarrow> vec \<Rightarrow> vec \<Rightarrow> vec \<Rightarrow> vec \<Rightarrow> (unit, env) outcome" where
  "setInitConstants e gcInit' gvInit' actionMean' actionStd' pGain dGain =
     (if int (length gcInit') \<noteq> gcDim e
        then Aborts (AssertionFailed ''gcInit.size() == gcDim_'') e
      else if int (length gvInit') \<noteq> gvDim e
        then Aborts (AssertionFailed ''gvInit.size() == gvDim_'') e
      else if int (length actionMean') \<noteq> actionDim e
        then Aborts (AssertionFailed ''actionMean.size() == actionDim_'') e
      else if int (length actionStd') \<noteq> actionDim e
        then Aborts (AssertionFailed ''actionStd.size() == actionDim_'') e
      else if int (length pGain) \<noteq> gvDim e
        then Aborts (AssertionFailed ''pGain.size() == gvDim_'') e
      else if int (length dGain) \<noteq> gvDim e
        then Aborts (AssertionFailed ''dGain.size() == gvDim_'') e
      else Returns ()
             (e\<lparr>gcInit := gcInit', gvInit := gvInit',
                actionMean := actionMean', actionStd := actionStd',
                backend := setPdGains_backend pGain dGain (backend e)\<rparr>))"

definition updateObservation :: "(quat \<Rightarrow> mat3) \<Rightarrow> env \<Rightarrow> (unit, env) outcome" where
  "updateObservation quatToRotMat e =
     (let e1 = e\<lparr>gc := b_gc (backend e), gv := b_gv (backend e)\<rparr> in
      checked (coeff (gc e1) 3) e1 (\<lambda>q0.
      checked (coeff (gc e1) 4) e1 (\<lambda>q1.
      checked (coeff (gc e1) 5) e1 (\<lambda>q2.
      checked (coeff (gc e1) 6) e1 (\<lambda>q3.
        let rot = quatToRotMat (q0, q1, q2, q3) in
      checked (segment3 0 (gv e1)) e1 (\<lambda>lin.
        let e2 = e1\<lparr>bodyLinearVel := transpose_mult rot lin\<rparr> in
      checked (segment3 3 (gv e2)) e2 (\<lambda>ang.
        let e3 = e2\<lparr>bodyAngularVel := transpose_mult rot ang\<rparr> in
      checked (coeff (gc e3) 2) e3 (\<lambda>height.
      checked (tail (nJoints e3) (gc e3)) e3 (\<lambda>jointAngles.
      checked (tail (nJoints e3) (gv e3)) e3 (\<lambda>jointVels.
      checked (comma_init (obDouble e3)
                 ([height] @ vec3_list (row2 rot) @ jointAngles
                  @ vec3_list (bodyLinearVel e3) @ vec3_list (bodyAngularVel e3)
                  @ jointVels)) e3 (\<lambda>ob.
        Returns () (e3\<lparr>obDouble := ob\<rparr>))))))))))))"

definition init :: "(quat \<Rightarrow> mat3) \<Rightarrow> env \<Rightarrow> (unit, env) outcome" where
  "init quatToRotMat e =
     updateObservation quatToRotMat
       (e\<lparr>backend := setState (gcInit e) (gvInit e) (backend e)\<rparr>)"

definition reset :: "(quat \<Rightarrow> mat3) \<Rightarrow> env \<Rightarrow> (unit, env) outcome" where
  "reset quatToRotMat e =
     updateObservation quatToRotMat
       (e\<lparr>backend := setState (gcInit e) (gvInit e) (backend e)\<rparr>)"

text \<open>\<^verbatim>\<open>observe(ob)\<close> writes into a caller-supplied \<^verbatim>\<open>Eigen::Ref\<close> of fixed size.\<close>

definition observe :: "env \<Rightarrow> vec \<Rightarrow> (vec, env) outcome" where
  "observe e ob = (if length ob = length (obDouble e) then Returns (obDouble e) e
                   else Aborts (AssertionFailed ''rows() == other.rows()'') e)"

subsection \<open>The control step\<close>

text \<open>Rounding to the nearest \<^verbatim>\<open>double\<close>, ties to even: a number of binade \<open>b\<close> (that is,
  of magnitude in \<open>[2^b, 2^(b+1))\<close>) is rounded to a multiple of \<open>2^(b - 52)\<close>, a subnormal one
  to a multiple of \<open>2^(-1074)\<close>. Overflow to an infinity is not represented: a result beyond
  the range of \<^verbatim>\<open>double\<close> stays a real number beyond the range of \<^verbatim>\<open>int\<close>, and both fail to
  convert.\<close>

definition round_half_even :: "real \<Rightarrow> int" where
  "round_half_even y =
     (let f = \<lfloor>y\<rfloor>; d = y - of_int f
      in if d < 1 / 2 then f else if 1 / 2 < d then f + 1
         else if even f then f else f + 1)"

definition binade :: "real \<Rightarrow> int" where
  "binade x = \<lfloor>log 2 \<bar>x\<bar>\<rfloor>"

definition round_double :: "real \<Rightarrow> real" where
  "round_double x =
     (if x = 0 then 0
      else let e = max (binade x) (- 1022) - 52
           in of_int (round_half_even (x / 2 powi e)) * 2 powi e)"

text \<open>The value of \<^verbatim>\<open>control_dt_ / simulation_dt_ + 1e-10\<close> for a non-zero divisor: the
  quotient of the two stored numbers is rounded, the literal \<^verbatim>\<open>1e-10\<close> is the \<^verbatim>\<open>double\<close>
  nearest to \<open>10^(-10)\<close>, and their sum is rounded.\<close>

definition loop_value :: "real \<Rightarrow> real \<Rightarrow> real" where
  "loop_value c s = round_double (round_double (c / s) + round_double (1 / 10 ^ 10))"

text \<open>The bound of the integration loop, \<^verbatim>\<open>int(control_dt_ / simulation_dt_ + 1e-10)\<close>.
  Dividing by zero gives an infinity or a NaN, which stays one when \<^verbatim>\<open>1e-10\<close> is added and
  has no conversion to \<^verbatim>\<open>int\<close>.\<close>

definition loop_bound :: "env \<Rightarrow> error + int" where
  "loop_bound e =
     (if simulation_dt e = 0 then Inl UndefinedConversion
      else double_to_int (loop_value (control_dt e) (simulation_dt e)))"

definition lockVisualizationServerMutex :: "server \<Rightarrow> server" where
  "lockVisualizationServerMutex s = s\<lparr>sv_mutexLocked := True\<rparr>"

definition unlockVisualizationServerMutex :: "server \<Rightarrow> server" where
  "unlockVisualizationServerMutex s = s\<lparr>sv_mutexLocked := False\<rparr>"

text \<open>The body of the loop: one call of \<^verbatim>\<open>world_->integrate()\<close>, between the lock and the
  unlock when there is a server.\<close>

definition integrate_body :: "(backend \<Rightarrow> backend) \<Rightarrow> env \<Rightarrow> env" where
  "integrate_body integrate e =
     (let e1 = (case server e of None \<Rightarrow> e
                | Some s \<Rightarrow> e\<lparr>server := Some (lockVisualizationServerMutex s)\<rparr>);
          e2 = e1\<lparr>backend := integrate (backend e1)\<rparr>
      in (case server e2 of None \<Rightarrow> e2
          | Some s \<Rightarrow> e2\<lparr>server := Some (unlockVisualizationServerMutex s)\<rparr>))"

text \<open>The \<^verbatim>\<open>for\<close> loop, with its counter \<open>i\<close>; the bound is evaluated before every
  iteration, as in the source.\<close>

function integrate_loop :: "(backend \<Rightarrow> backend) \<Rightarrow> int \<Rightarrow> env \<Rightarrow> (unit, env) outcome" where
  "integrate_loop integrate i e =
     (case loop_bound e of
        Inl err \<Rightarrow> Aborts err e
      | Inr n \<Rightarrow> if i < n then integrate_loop integrate (i + 1) (integrate_body integrate e)
                 else Returns () e)"
  by pat_completeness auto
termination
  by (relation "measure (\<lambda>(integrate, i, e).
                  case loop_bound e of Inl err \<Rightarrow> 0 | Inr n \<Rightarrow> nat (n - i))")
     (auto simp: loop_bound_def integrate_body_def Let_def split: option.splits)

declare integrate_loop.simps [simp del]

definition step ::
  "(backend \<Rightarrow> backend) \<Rightarrow> (quat \<Rightarrow> mat3) \<Rightarrow> env \<Rightarrow> vec \<Rightarrow> (real, env) outcome" where
  "step integrate quatToRotMat e action =
     (let pTargetTail = action in
      checked (cwiseProduct pTargetTail (actionStd e)) e (\<lambda>pTargetTail.
      checked (add_assign pTargetTail (actionMean e)) e (\<lambda>pTargetTail.
      checked (assign_tail (nJoints e) (pTarget e) pTargetTail) e (\<lambda>p.
        let e1 = e\<lparr>pTarget := p\<rparr>;
            e2 = e1\<lparr>backend := setPdTarget (pTarget e1) (vTarget e1) (backend e1)\<rparr>
        in case integrate_loop integrate 0 e2 of
             Aborts err e3 \<Rightarrow> Aborts err e3
           | Returns u e3 \<Rightarrow>
               (case updateObservation quatToRotMat e3 of
                  Aborts err e4 \<Rightarrow> Aborts err e4
                | Returns u e4 \<Rightarrow>
                    let re = - (4 / 10 ^ 5) * squaredNorm (b_generalizedForce (backend e4))
                             + 0.3 * min 4.0 (fst (bodyLinearVel e4))
                    in Returns re e4)))))"

subsection \<open>Termination check\<close>

text \<open>The loop over \<^verbatim>\<open>robot_->getContacts()\<close>; \<open>True\<close> is the early \<^verbatim>\<open>return true\<close>.\<close>

fun contact_loop :: "nat set \<Rightarrow> nat list \<Rightarrow> bool" where
  "contact_loop feet [] = False"
| "contact_loop feet (contact # contacts) =
     (if contact \<notin> feet then True else contact_loop feet contacts)"

text \<open>\<open>terminalReward\<close> is the reference parameter: its value at the call comes in, its value
  at the return goes out next to the result.\<close>

definition isTerminalState :: "env \<Rightarrow> real \<Rightarrow> (bool \<times> real, env) outcome" where
  "isTerminalState e terminalReward =
     (let terminalReward1 = terminalRewardCoeff e in
      if contact_loop (footIndices e) (b_contacts (backend e))
      then Returns (True, terminalReward1) e
      else (let terminalReward2 = 0 in Returns (False, terminalReward2) e))"

subsection \<open>Setters, getters and no-ops\<close>

definition curriculumUpdate :: "env \<Rightarrow> (unit, env) outcome" where
  "curriculumUpdate e = Returns () e"

definition setSimulationTimeStep :: "env \<Rightarrow> real \<Rightarrow> (unit, env) outcome" where
  "setSimulationTimeStep e dt =
     Returns () (e\<lparr>simulation_dt := dt, backend := (backend e)\<lparr>b_timeStep := dt\<rparr>\<rparr>)"

definition close :: "env \<Rightarrow> (unit, env) outcome" where
  "close e = Returns () e"

definition setSeed :: "env \<Rightarrow> int \<Rightarrow> (unit, env) outcome" where
  "setSeed e seed = Returns () e"

definition setControlTimeStep :: "env \<Rightarrow> real \<Rightarrow> (unit, env) outcome" where
  "setControlTimeStep e dt = Returns () (e\<lparr>control_dt := dt\<rparr>)"

definition getObDim :: "env \<Rightarrow> (int, env) outcome" where
  "getObDim e = Returns (obDim e) e"

definition getActionDim :: "env \<Rightarrow> (int, env) outcome" where
  "getActionDim e = Returns (actionDim e) e"

definition getControlTimeStep :: "env \<Rightarrow> (real, env) outcome" where
  "getControlTimeStep e = Returns (control_dt e) e"

definition getSimulationTimeStep :: "env \<Rightarrow> (real, env) outcome" where
  "getSimulationTimeStep e = Returns (simulation_dt e) e"

subsection \<open>Visualisation\<close>

text \<open>Each of the four functions calls through \<^verbatim>\<open>server_\<close> without looking at it.\<close>

definition turnOffVisualization :: "env \<Rightarrow> (unit, env) outcome" where
  "turnOffVisualization e =
     (case server e of
        None \<Rightarrow> Aborts NullPointerDereference e
      | Some s \<Rightarrow> Returns () (e\<lparr>server := Some (s\<lparr>sv_hibernating := True\<rparr>)\<rparr>))"

definition turnOnVisualization :: "env \<Rightarrow> (unit, env) outcome" where
  "turnOnVisualization e =
     (case server e of
        None \<Rightarrow> Aborts NullPointerDereference e
      | Some s \<Rightarrow> Returns () (e\<lparr>server := Some (s\<lparr>sv_hibernating := False\<rparr>)\<rparr>))"

definition startRecordingVideo :: "env \<Rightarrow> string \<Rightarrow> (unit, env) outcome" where
  "startRecordingVideo e videoName =
     (case server e of
        None \<Rightarrow> Aborts NullPointerDereference e
      | Some s \<Rightarrow> Returns () (e\<lparr>server := Some (s\<lparr>sv_recording := Some videoName\<rparr>)\<rparr>))"

definition stopRecordingVideo :: "env \<Rightarrow> (unit, env) outcome" where
  "stopRecordingVideo e =
     (case server e of
        None \<Rightarrow> Aborts NullPointerDereference e
      | Some s \<Rightarrow> Returns () (e\<lparr>server := Some (s\<lparr>sv_recording := None\<rparr>)\<rparr>))"

subsection \<open>Well-formed environments\<close>

text \<open>What raisim guarantees of a world it has loaded, and of its integrator: the state
  vectors have the robot's dimensions, and integrating does not change their sizes.\<close>

definition backend_ok :: "backend \<Rightarrow> bool" where
  "backend_ok b \<longleftrightarrow>
     int (length (b_gc b)) = b_gcDim b \<and> int (length (b_gv b)) = b_dof b"

definition keeps_dims :: "(backend \<Rightarrow> backend) \<Rightarrow> bool" where
  "keeps_dims f \<longleftrightarrow>
     (\<forall>b. length (b_gc (f b)) = length (b_gc b) \<and> length (b_gv (f b)) = length (b_gv b))"

text \<open>The invariant that the constructor establishes and every member function keeps.\<close>

definition env_ok :: "env \<Rightarrow> bool" where
  "env_ok e \<longleftrightarrow>
     7 \<le> gcDim e \<and> nJoints e = gvDim e - 6 \<and> 0 \<le> nJoints e \<and> nJoints e \<le> gcDim e \<and>
     actionDim e = nJoints e \<and> obDim e = 1 + 3 + 3 + 3 + nJoints e * 2 \<and>
     int (length (pTarget e)) = gcDim e \<and>
     take (nat (gcDim e - nJoints e)) (pTarget e) = replicate (nat (gcDim e - nJoints e)) 0 \<and>
     vTarget e = replicate (nat (gvDim e)) 0 \<and>
     int (length (gcInit e)) = gcDim e \<and> int (length (gvInit e)) = gvDim e \<and>
     int (length (actionMean e)) = actionDim e \<and> int (length (actionStd e)) = actionDim e \<and>
     int (length (obDouble e)) = obDim e \<and>
     int (length (b_gc (backend e))) = gcDim e \<and> int (length (b_gv (backend e))) = gvDim e"

text \<open>The environments that a caller can reach: the constructor's result, and the state
  after any member function that has returned.\<close>

inductive reachable ::
  "(string \<Rightarrow> backend) \<Rightarrow> string \<Rightarrow> bool \<Rightarrow> header_defaults \<Rightarrow>
   (backend \<Rightarrow> backend) \<Rightarrow> (quat \<Rightarrow> mat3) \<Rightarrow> env \<Rightarrow> bool"
  for load dir vis dflt integrate quatToRotMat
where
  constructed:
    "WalkerEnv load dir vis dflt = Inr e \<Longrightarrow>
     reachable load dir vis dflt integrate quatToRotMat e"
| after_setInitConstants:
    "reachable load dir vis dflt integrate quatToRotMat e \<Longrightarrow>
     setInitConstants e a b c d p g = Returns u e' \<Longrightarrow>
     reachable load dir vis dflt integrate quatToRotMat e'"
| after_init:
    "reachable load dir vis dflt integrate quatToRotMat e \<Longrightarrow>
     init quatToRotMat e = Returns u e' \<Longrightarrow>
     reachable load dir vis dflt integrate quatToRotMat e'"
| after_reset:
    "reachable load dir vis dflt integrate quatToRotMat e \<Longrightarrow>
     reset quatToRotMat e = Returns u e' \<Longrightarrow>
     reachable load dir vis dflt integrate quatToRotMat e'"
| after_step:
    "reachable load dir vis dflt integrate quatToRotMat e \<Longrightarrow>
     step integrate quatToRotMat e action = Returns re e' \<Longrightarrow>
     reachable load dir vis dflt integrate quatToRotMat e'"
| after_setSimulationTimeStep:
    "reachable load dir vis dflt integrate quatToRotMat e \<Longrightarrow>
     setSimulationTimeStep e dt = Returns u e' \<Longrightarrow>
     reachable load dir vis dflt integrate quatToRotMat e'"
| after_setControlTimeStep:
    "reachable load dir vis dflt integrate quatToRotMat e \<Longrightarrow>
     setControlTimeStep e dt = Returns u e' \<Longrightarrow>
     reachable load dir vis dflt integrate quatToRotMat e'"
| after_turnOffVisualization:
    "reachable load dir vis dflt integrate quatToRotMat e \<Longrightarrow>
     turnOffVisualization e = Returns u e' \<Longrightarrow>
     reachable load dir vis dflt integrate quatToRotMat e'"
| after_turnOnVisualization:
    "reachable load dir vis dflt integrate quatToRotMat e \<Longrightarrow>
     turnOnVisualization e = Returns u e' \<Longrightarrow>
     reachable load dir vis dflt integrate quatToRotMat e'"
| after_startRecordingVideo:
    "reachable load dir vis dflt integrate quatToRotMat e \<Longrightarrow>
     startRecordingVideo e videoName = Returns u e' \<Longrightarrow>
     reachable load dir vis dflt integrate quatToRotMat e'"
| after_stopRecordingVideo:
    "reachable load dir vis dflt integrate quatToRotMat e \<Longrightarrow>
     stopRecordingVideo e = Returns u e' \<Longrightarrow>
     reachable load dir vis dflt integrate quatToRotMat e'"

subsection \<open>The observation as the specification lays it out\<close>

text \<open>Base height; third row of the rotation matrix of the base quaternion; joint angles;
  base linear velocity in the base frame; base angular velocity in the base frame; joint
  velocities. \<open>g\<close> and \<open>v\<close> are the generalized coordinates and velocities, \<open>n\<close> the number of
  joints.\<close>

definition spec_observation :: "(quat \<Rightarrow> mat3) \<Rightarrow> nat \<Rightarrow> vec \<Rightarrow> vec \<Rightarrow> vec" where
  "spec_observation quatToRotMat n g v =
     (case quatToRotMat (g ! 3, g ! 4, g ! 5, g ! 6) of
        ((r00, r01, r02), (r10, r11, r12), (r20, r21, r22)) \<Rightarrow>
          [g ! 2] @
          [r20, r21, r22] @
          drop (length g - n) g @
          [r00 * v ! 0 + r10 * v ! 1 + r20 * v ! 2,
           r01 * v ! 0 + r11 * v ! 1 + r21 * v ! 2,
           r02 * v ! 0 + r12 * v ! 1 + r22 * v ! 2] @
          [r00 * v ! 3 + r10 * v ! 4 + r20 * v ! 5,
           r01 * v ! 3 + r11 * v ! 4 + r21 * v ! 5,
           r02 * v ! 3 + r12 * v ! 4 + r22 * v ! 5] @
          drop (length v - n) v)"

text \<open>The observation buffer is current: it has the length \<open>obDim = 1 + 3 + 3 + 3 + 2 * nJoints\<close>,
  the cached coordinates and velocities are those of the robot, and the buffer is their
  observation in the order above.\<close>

definition observation_current :: "(quat \<Rightarrow> mat3) \<Rightarrow> env \<Rightarrow> bool" where
  "observation_current quatToRotMat e \<longleftrightarrow>
     int (length (obDouble e)) = obDim e \<and>
     obDim e = 1 + 3 + 3 + 3 + 2 * nJoints e \<and>
     gc e = b_gc (backend e) \<and> gv e = b_gv (backend e) \<and>
     obDouble e = spec_observation quatToRotMat (nat (nJoints e)) (gc e) (gv e)"

subsection \<open>Closed forms of two post-states\<close>

text \<open>The state after the first half of \<open>step\<close> (lines 114 to 119 of the source: the
  position target is rewritten and both targets are handed to the robot), and the state after
  a call of \<open>updateObservation\<close> that passes all its range checks. The lemmas
  \<open>step_returns\<close> and \<open>updateObservation_returns\<close> below prove that the functions compute
  exactly these states.\<close>

definition targeted :: "env \<Rightarrow> vec \<Rightarrow> env" where
  "targeted e action =
     (let p = take (length (pTarget e) - nat (nJoints e)) (pTarget e)
              @ map2 (+) (map2 (*) action (actionStd e)) (actionMean e)
      in e\<lparr>pTarget := p, backend := setPdTarget p (vTarget e) (backend e)\<rparr>)"

definition observed :: "(quat \<Rightarrow> mat3) \<Rightarrow> env \<Rightarrow> env" where
  "observed quatToRotMat e =
     (let g = b_gc (backend e); v = b_gv (backend e);
          rot = quatToRotMat (g ! 3, g ! 4, g ! 5, g ! 6)
      in e\<lparr>gc := g, gv := v,
            bodyLinearVel := transpose_mult rot (v ! 0, v ! 1, v ! 2),
            bodyAngularVel := transpose_mult rot (v ! 3, v ! 4, v ! 5),
            obDouble := spec_observation quatToRotMat (nat (nJoints e)) g v\<rparr>)"

subsection \<open>An example robot\<close>

text \<open>A world with one quadruped of 19 generalized coordinates and 18 degrees of freedom;
  an integrator that moves the base one unit along x in every sub-step, and one that only
  sets the generalized force to the proportional torque \<open>pGain * (pTarget - q)\<close> of the
  joints; the usual rotation matrix of a unit quaternion \<open>(w, x, y, z)\<close>; and values for the
  three members that the header initialises, the time steps being the \<^verbatim>\<open>double\<close>s nearest to
  0.02 and 0.005. They give the theorems below concrete inputs.\<close>

definition example_world :: "string \<Rightarrow> backend" where
  "example_world dir =
     \<lparr>b_gcDim = 19, b_dof = 18,
      b_bodyIdx = (\<lambda>name. if name = ''LF_SHANK'' then 3 else if name = ''RF_SHANK'' then 6
                           else if name = ''LH_SHANK'' then 9
                           else if name = ''RH_SHANK'' then 12 else 0),
      b_name = [], b_controlMode = FORCE_AND_TORQUE, b_ground = False,
      b_timeStep = 0.005,
      b_gc = [0, 0, 0, 1, 0, 0, 0, 0, 0, 0, 0, 0, 0, 0, 0, 0, 0, 0, 0],
      b_gv = replicate 18 0,
      b_pGain = replicate 18 0, b_dGain = replicate 18 0,
      b_pTarget = replicate 19 0, b_vTarget = replicate 18 0,
      b_generalizedForce = replicate 18 0,
      b_contacts = []\<rparr>"

definition example_integrate :: "backend \<Rightarrow> backend" where
  "example_integrate b = b\<lparr>b_gc := (b_gc b)[0 := b_gc b ! 0 + 1]\<rparr>"

definition example_integrate_pd :: "backend \<Rightarrow> backend" where
  "example_integrate_pd b =
     b\<lparr>b_generalizedForce :=
         replicate 6 0 @
         map2 (*) (drop 6 (b_pGain b)) (map2 (-) (drop 7 (b_pTarget b)) (drop 7 (b_gc b)))\<rparr>"

definition example_quatToRotMat :: "quat \<Rightarrow> mat3" where
  "example_quatToRotMat q =
     (case q of (w, x, y, z) \<Rightarrow>
        ((w * w + x * x - y * y - z * z, 2 * x * y - 2 * w * z, 2 * w * y + 2 * x * z),
         (2 * w * z + 2 * x * y, w * w - x * x + y * y - z * z, 2 * y * z - 2 * w * x),
         (2 * x * z - 2 * w * y, 2 * w * x + 2 * y * z, w * w - x * x - y * y + z * z)))"

definition example_defaults :: header_defaults where
  "example_defaults =
     \<lparr>hd_control_dt = round_double 0.02, hd_simulation_dt = round_double 0.005,
      hd_terminalRewardCoeff = - 10\<rparr>"

definition example_env :: env where
  "example_env = projr (WalkerEnv example_world ''rsc/robot.urdf'' False example_defaults)"

definition example_action :: vec where
  "example_action = [1, 0, - 1, 1, 0, - 1, 1, 0, - 1, 1, 0, - 1]"

text \<open>The example environment after \<^verbatim>\<open>setControlTimeStep(c)\<close> and
  \<^verbatim>\<open>setSimulationTimeStep(s)\<close>; with a given list of contacts reported by the robot; and
  turned about the vertical axis (unit quaternion \<open>(0.6, 0, 0, 0.8)\<close>) with the world-frame
  base velocity \<open>(-2.8, 9.6, 0)\<close>, which is 10 along the x axis of the base: these values are
  written into \<^verbatim>\<open>gcInit_\<close> and \<^verbatim>\<open>gvInit_\<close> through \<open>setInitConstants\<close>, with the default gains,
  and the environment is reset.\<close>

definition example_env_timed :: "real \<Rightarrow> real \<Rightarrow> env" where
  "example_env_timed c s =
     final_state (setSimulationTimeStep (final_state (setControlTimeStep example_env c)) s)"

definition example_env_contacts :: "nat list \<Rightarrow> env" where
  "example_env_contacts cs = example_env\<lparr>backend := (backend example_env)\<lparr>b_contacts := cs\<rparr>\<rparr>"

definition example_env_turned :: env where
  "example_env_turned =
     final_state (reset example_quatToRotMat
       (final_state (setInitConstants example_env
          ([0, 0, 0.5, 0.6, 0, 0, 0.8] @ drop 7 (gcInit example_env))
          ([- 2.8, 9.6, 0] @ replicate 15 0)
          (actionMean example_env) (actionStd example_env)
          (replicate 6 0 @ replicate 12 50) (replicate 6 0 @ replicate 12 0.2))))"

section \<open>Properties\<close>

subsection \<open>Rounding to double\<close>

lemma binade_eq:
  assumes "2 powi k \<le> \<bar>x\<bar>" and "\<bar>x\<bar> < 2 powi (k + 1)"
  shows "binade x = k"
proof -
  have p: "(0::real) < 2 powi k" by simp
  have pos: "0 < \<bar>x\<bar>" using assms(1) p by linarith
  have e1: "(2::real) powr (of_int k) = 2 powi k"
    by (rule powr_real_of_int') simp_all
  have e2: "(2::real) powr (of_int (k + 1)) = 2 powi (k + 1)"
    by (rule powr_real_of_int') simp_all
  have "2 powr (of_int k) \<le> \<bar>x\<bar> \<and> \<bar>x\<bar> < 2 powr (of_int k + 1)"
    using assms e1 e2 by simp
  then have "\<lfloor>log 2 \<bar>x\<bar>\<rfloor> = k"
    using floor_log_eq_powr_iff[of "\<bar>x\<bar>" 2 k] pos by simp
  then show ?thesis by (simp add: binade_def)
qed

lemma round_double_at:
  assumes "2 powi k \<le> \<bar>x\<bar>" and "\<bar>x\<bar> < 2 powi (k + 1)" and "- 1022 \<le> k"
  shows "round_double x = of_int (round_half_even (x / 2 powi (k - 52))) * 2 powi (k - 52)"
proof -
  have "(0::real) < 2 powi k" by simp
  then have "0 < \<bar>x\<bar>" using assms(1) by linarith
  then have "x \<noteq> 0" by auto
  then show ?thesis
    using binade_eq[OF assms(1,2)] assms(3) by (simp add: round_double_def Let_def max_def)
qed

lemma round_half_even_ge:
  assumes "of_int m \<le> y"
  shows "m \<le> round_half_even y"
proof -
  have "m \<le> \<lfloor>y\<rfloor>" using assms by (simp add: le_floor_iff)
  then show ?thesis by (simp add: round_half_even_def Let_def)
qed

lemma round_half_even_le:
  assumes "y \<le> of_int m"
  shows "round_half_even y \<le> m"
proof (cases "y = of_int m")
  case True
  then show ?thesis by (simp add: round_half_even_def Let_def)
next
  case False
  then have "y < of_int m" using assms by simp
  then have "\<lfloor>y\<rfloor> < m" by (simp add: floor_less_iff)
  then have "\<lfloor>y\<rfloor> + 1 \<le> m" by simp
  then show ?thesis by (simp add: round_half_even_def Let_def)
qed

lemma binade_bounds:
  assumes "1 \<le> x" and "x < 2 ^ 52"
  shows "0 \<le> binade x" and "binade x \<le> 51"
proof -
  have ax: "\<bar>x\<bar> = x" using assms(1) by simp
  have "0 \<le> log 2 x" using assms(1) by simp
  then show "0 \<le> binade x" unfolding binade_def ax by simp
  have "x < 2 powr 52" using assms(2) by simp
  then have "log 2 x < 52" using assms(1) by (simp add: log_less_iff)
  then have "\<lfloor>log 2 x\<rfloor> < 52" by (simp add: floor_less_iff)
  then show "binade x \<le> 51" unfolding binade_def ax by simp
qed

text \<open>Rounding a number of \<open>[1, 2^52)\<close> does not cross a half-integer.\<close>

lemma round_double_grid:
  assumes "1 \<le> x" and "x < 2 ^ 52" and "2 * g = of_int j"
  shows "g \<le> x \<Longrightarrow> g \<le> round_double x" and "x \<le> g \<Longrightarrow> round_double x \<le> g"
proof -
  define n where "n = nat (52 - binade x)"
  have b: "0 \<le> binade x" "binade x \<le> 51" using binade_bounds[OF assms(1,2)] by simp_all
  have n1: "1 \<le> n" using b by (simp add: n_def)
  have e: "max (binade x) (- 1022) - 52 = - int n" using b by (simp add: n_def)
  have p: "(2::real) powi (- int n) = 1 / 2 ^ n"
    by (simp add: power_int_minus field_simps)
  have x0: "x \<noteq> 0" using assms(1) by simp
  have rd: "round_double x = of_int (round_half_even (x * 2 ^ n)) / 2 ^ n"
    using x0 by (simp add: round_double_def Let_def e p)
  obtain n' where n': "n = Suc n'" using n1 by (cases n) simp_all
  have gj: "g * 2 ^ n = of_int (j * 2 ^ n')"
  proof -
    have "g * 2 ^ n = (2 * g) * 2 ^ n'" by (simp add: n')
    then show ?thesis by (simp add: assms(3))
  qed
  have pos: "(0::real) < 2 ^ n" by simp
  {
    assume "g \<le> x"
    then have "g * 2 ^ n \<le> x * 2 ^ n" using pos by simp
    then have "of_int (j * 2 ^ n') \<le> x * 2 ^ n" by (simp only: gj)
    then have "j * 2 ^ n' \<le> round_half_even (x * 2 ^ n)" by (rule round_half_even_ge)
    then have "(of_int (j * 2 ^ n') :: real) \<le> of_int (round_half_even (x * 2 ^ n))"
      by (simp only: of_int_le_iff)
    then have "g * 2 ^ n \<le> of_int (round_half_even (x * 2 ^ n))" by (simp only: gj)
    then show "g \<le> round_double x" unfolding rd using pos by (simp add: field_simps)
  }
  {
    assume "x \<le> g"
    then have "x * 2 ^ n \<le> g * 2 ^ n" using pos by simp
    then have "x * 2 ^ n \<le> of_int (j * 2 ^ n')" by (simp only: gj)
    then have "round_half_even (x * 2 ^ n) \<le> j * 2 ^ n'" by (rule round_half_even_le)
    then have "(of_int (round_half_even (x * 2 ^ n)) :: real) \<le> of_int (j * 2 ^ n')"
      by (simp only: of_int_le_iff)
    then have "of_int (round_half_even (x * 2 ^ n)) \<le> g * 2 ^ n" by (simp only: gj)
    then show "round_double x \<le> g" unfolding rd using pos by (simp add: field_simps)
  }
qed

lemma round_double_of_int:
  assumes "1 \<le> k" and "k < 2 ^ 52"
  shows "round_double (of_int k) = of_int k"
proof -
  have a: "(1::real) \<le> of_int k" "(of_int k :: real) < 2 ^ 52" using assms by simp_all
  have g: "2 * (of_int k :: real) = of_int (2 * k)" by simp
  have "of_int k \<le> round_double (of_int k)" "round_double (of_int k) \<le> of_int k"
    using round_double_grid[OF a g] by simp_all
  then show ?thesis by simp
qed

text \<open>The values that occur in the examples: the literal \<^verbatim>\<open>1e-10\<close>, the time steps, and the
  value of \<^verbatim>\<open>control_dt_ / simulation_dt_ + 1e-10\<close> for some pairs of time steps. In the last
  two the exact quotient plus \<open>10^(-10)\<close> is just below an integer and the rounded sum is
  that integer.\<close>

lemma round_double_eps: "round_double (1 / 10 ^ 10) = 7737125245533627 / 2 ^ 86"
  by (subst round_double_at[where k = "-34"]) (simp_all add: round_half_even_def Let_def power_int_minus)

lemma round_double_002: "round_double 0.02 = 5764607523034235 / 2 ^ 58"
  by (subst round_double_at[where k = "-6"]) (simp_all add: round_half_even_def Let_def power_int_minus)

lemma round_double_0005: "round_double 0.005 = 5764607523034235 / 2 ^ 60"
  by (subst round_double_at[where k = "-8"]) (simp_all add: round_half_even_def Let_def power_int_minus)

lemma round_double_0007: "round_double 0.007 = 8070450532247929 / 2 ^ 60"
  by (subst round_double_at[where k = "-8"]) (simp_all add: round_half_even_def Let_def power_int_minus)

lemma round_double_0004: "round_double 0.004 = 1152921504606847 / 2 ^ 58"
  by (subst round_double_at[where k = "-8"]) (simp_all add: round_half_even_def Let_def power_int_minus)


lemma loop_value_002_0005: "loop_value (5764607523034235 / 2 ^ 58) (5764607523034235 / 2 ^ 60) = 2251799813741543 / 2 ^ 49"
proof -
  have q: "round_double ((5764607523034235 / 2 ^ 58) / (5764607523034235 / 2 ^ 60)) = 4"
    by (subst round_double_at[where k = "2"]) (simp_all add: round_half_even_def Let_def power_int_minus)
  have x: "round_double (4 + 7737125245533627 / 2 ^ 86) = 2251799813741543 / 2 ^ 49"
    by (subst round_double_at[where k = "2"]) (simp_all add: round_half_even_def Let_def power_int_minus)
  show ?thesis by (simp only: loop_value_def round_double_eps q x)
qed

lemma loop_value_0007_0004: "loop_value (8070450532247929 / 2 ^ 60) (1152921504606847 / 2 ^ 58) = 985162418543591 / 2 ^ 49"
proof -
  have q: "round_double ((8070450532247929 / 2 ^ 60) / (1152921504606847 / 2 ^ 58)) = 7 / 2 ^ 2"
    by (subst round_double_at[where k = "0"]) (simp_all add: round_half_even_def Let_def power_int_minus)
  have x: "round_double (7 / 2 ^ 2 + 7737125245533627 / 2 ^ 86) = 985162418543591 / 2 ^ 49"
    by (subst round_double_at[where k = "0"]) (simp_all add: round_half_even_def Let_def power_int_minus)
  show ?thesis by (simp only: loop_value_def round_double_eps q x)
qed


lemma loop_value_huge: "loop_value (10000000000) (1) = 10000000000"
proof -
  have q: "round_double ((10000000000) / (1)) = 10000000000"
    by (subst round_double_at[where k = "33"]) (simp_all add: round_half_even_def Let_def power_int_minus)
  have x: "round_double (10000000000 + 7737125245533627 / 2 ^ 86) = 10000000000"
    by (subst round_double_at[where k = "33"]) (simp_all add: round_half_even_def Let_def power_int_minus)
  show ?thesis by (simp only: loop_value_def round_double_eps q x)
qed


lemma loop_value_rounds_to_3: "loop_value (2026619832249169 / 2 ^ 51) (5404319552844595 / 2 ^ 54) = 3"
proof -
  have q: "round_double ((2026619832249169 / 2 ^ 51) / (5404319552844595 / 2 ^ 54)) = 1688849860207641 / 2 ^ 49"
    by (subst round_double_at[where k = "1"]) (simp_all add: round_half_even_def Let_def power_int_minus)
  have x: "round_double (1688849860207641 / 2 ^ 49 + 7737125245533627 / 2 ^ 86) = 3"
    by (subst round_double_at[where k = "1"]) (simp_all add: round_half_even_def Let_def power_int_minus)
  show ?thesis by (simp only: loop_value_def round_double_eps q x)
qed

lemma loop_value_rounds_to_1: "loop_value (6341068274703551 / 2 ^ 56) (3170534137668829 / 2 ^ 55) = 1"
proof -
  have q: "round_double ((6341068274703551 / 2 ^ 56) / (3170534137668829 / 2 ^ 55)) = 562949953365017 / 2 ^ 49"
    by (subst round_double_at[where k = "-1"]) (simp_all add: round_half_even_def Let_def power_int_minus)
  have x: "round_double (562949953365017 / 2 ^ 49 + 7737125245533627 / 2 ^ 86) = 1"
    by (subst round_double_at[where k = "-1"]) (simp_all add: round_half_even_def Let_def power_int_minus)
  show ?thesis by (simp only: loop_value_def round_double_eps q x)
qed

subsection \<open>Observation and integration loop\<close>

lemma updateObservation_returns:
  assumes "7 \<le> length (b_gc (backend e))" and "6 \<le> length (b_gv (backend e))"
    and "0 \<le> nJoints e" and "nJoints e \<le> int (length (b_gc (backend e)))"
    and "nJoints e \<le> int (length (b_gv (backend e)))"
    and "int (length (obDouble e)) = 1 + 3 + 3 + 3 + nJoints e * 2"
  shows "updateObservation q e = Returns () (observed q e)"
proof -
  obtain r00 r01 r02 r10 r11 r12 r20 r21 r22 where
    R: "q (b_gc (backend e) ! 3, b_gc (backend e) ! 4, b_gc (backend e) ! 5, b_gc (backend e) ! 6)
        = ((r00, r01, r02), (r10, r11, r12), (r20, r21, r22))"
    by (metis prod_cases3)
  have n3: "nat (3::int) = 3" "nat (4::int) = 4" "nat (5::int) = 5" "nat (6::int) = 6" "nat (2::int) = 2"
    by simp_all
  show ?thesis
    using assms
    by (simp add: updateObservation_def checked_def coeff_def segment3_def tail_def
        comma_init_def spec_observation_def transpose_mult_def row2_def vec3_list_def R Let_def n3
        observed_def)
qed

lemma integrate_body_eq:
  "integrate_body integ e =
     e\<lparr>backend := integ (backend e),
       server := map_option (\<lambda>s. s\<lparr>sv_mutexLocked := False\<rparr>) (server e)\<rparr>"
  by (cases "server e")
     (simp_all add: integrate_body_def Let_def lockVisualizationServerMutex_def
        unlockVisualizationServerMutex_def)

lemma integrate_body_funpow:
  "(integrate_body integ ^^ k) e =
     e\<lparr>backend := (integ ^^ k) (backend e),
       server := (if k = 0 then server e
                  else map_option (\<lambda>s. s\<lparr>sv_mutexLocked := False\<rparr>) (server e))\<rparr>"
proof (induction k)
  case 0
  then show ?case by simp
next
  case (Suc k)
  then show ?case
    by (cases "server e") (simp_all add: integrate_body_eq)
qed

lemma loop_bound_integrate_body:
  "loop_bound (integrate_body integ e) = loop_bound e"
  by (simp add: loop_bound_def integrate_body_eq)

lemma integrate_loop_returns:
  assumes "loop_bound e = Inr n"
  shows "integrate_loop integ i e = Returns () ((integrate_body integ ^^ nat (n - i)) e)"
  using assms
proof (induction "nat (n - i)" arbitrary: i e)
  case 0
  then show ?case by (subst integrate_loop.simps) simp
next
  case (Suc k)
  have lt: "i < n" using Suc.hyps(2) by linarith
  have k: "k = nat (n - (i + 1))" using Suc.hyps(2) by linarith
  have lb: "loop_bound (integrate_body integ e) = Inr n"
    using Suc.prems by (simp add: loop_bound_integrate_body)
  have "integrate_loop integ i e = integrate_loop integ (i + 1) (integrate_body integ e)"
    using Suc.prems lt by (subst integrate_loop.simps) simp
  also have "\<dots> = Returns () ((integrate_body integ ^^ k) (integrate_body integ e))"
    using Suc.hyps(1)[OF k lb] k by simp
  also have "(integrate_body integ ^^ k) (integrate_body integ e)
             = (integrate_body integ ^^ nat (n - i)) e"
    using Suc.hyps(2)[symmetric] by (simp add: funpow_swap1)
  finally show ?case .
qed

lemma integrate_loop_aborts:
  assumes "loop_bound e = Inl err"
  shows "integrate_loop integ i e = Aborts err e"
  using assms by (subst integrate_loop.simps) simp

lemma keeps_dims_funpow:
  assumes "keeps_dims integ"
  shows "length (b_gc ((integ ^^ k) b)) = length (b_gc b) \<and>
         length (b_gv ((integ ^^ k) b)) = length (b_gv b)"
  using assms by (induction k) (simp_all add: keeps_dims_def)

subsection \<open>The loop bound and the result of a step\<close>

lemma double_to_int_defined:
  assumes "- (2 ^ 31) - 1 < x" and "x < 2 ^ 31"
  shows "\<exists>n. double_to_int x = Inr n \<and> nat n = nat \<lfloor>x\<rfloor> \<and> (0 \<le> x \<longrightarrow> n = \<lfloor>x\<rfloor>)"
proof (cases "0 \<le> x")
  case True
  have "x < real_of_int (2 ^ 31)" using assms(2) by simp
  then have "\<lfloor>x\<rfloor> < 2 ^ 31" by (simp only: floor_less_iff)
  moreover have "0 \<le> \<lfloor>x\<rfloor>" using True by simp
  ultimately show ?thesis using True by (simp add: double_to_int_def)
next
  case False
  have "real_of_int (- (2 ^ 31) - 1) < x" using assms(1) by simp
  then have "- (2 ^ 31) - 1 < \<lceil>x\<rceil>" by (simp only: less_ceiling_iff)
  moreover have "\<lceil>x\<rceil> \<le> 0" "\<lfloor>x\<rfloor> \<le> 0" using False by (simp_all add: ceiling_le_iff floor_le_iff)
  ultimately show ?thesis using False by (simp add: double_to_int_def)
qed

lemma loop_bound_defined:
  assumes "simulation_dt e \<noteq> 0"
    and "- (2 ^ 31) - 1 < loop_value (control_dt e) (simulation_dt e)"
    and "loop_value (control_dt e) (simulation_dt e) < 2 ^ 31"
  shows "\<exists>n. loop_bound e = Inr n \<and>
             nat n = nat \<lfloor>loop_value (control_dt e) (simulation_dt e)\<rfloor>"
proof -
  have "loop_bound e = double_to_int (loop_value (control_dt e) (simulation_dt e))"
    using assms(1) by (simp only: loop_bound_def if_False)
  with double_to_int_defined[OF assms(2,3)] show ?thesis by auto
qed

lemma double_to_int_undefined:
  assumes "x \<le> - (2 ^ 31) - 1 \<or> 2 ^ 31 \<le> x"
  shows "double_to_int x = Inl UndefinedConversion"
  using assms
proof
  assume a: "x \<le> - (2 ^ 31) - 1"
  then have "x \<le> real_of_int (- (2 ^ 31) - 1)" by simp
  then have "\<lceil>x\<rceil> \<le> - (2 ^ 31) - 1" by (simp only: ceiling_le_iff)
  moreover have "\<not> 0 \<le> x" using a by simp
  ultimately show ?thesis by (simp add: double_to_int_def)
next
  assume a: "2 ^ 31 \<le> x"
  then have "real_of_int (2 ^ 31) \<le> x" by simp
  then have "2 ^ 31 \<le> \<lfloor>x\<rfloor>" by (simp only: le_floor_iff)
  moreover have "0 \<le> x" using a by (rule order_trans[rotated]) simp
  ultimately show ?thesis by (simp add: double_to_int_def)
qed

lemma loop_bound_undefined:
  assumes "simulation_dt e = 0 \<or>
           loop_value (control_dt e) (simulation_dt e) \<le> - (2 ^ 31) - 1 \<or>
           2 ^ 31 \<le> loop_value (control_dt e) (simulation_dt e)"
  shows "loop_bound e = Inl UndefinedConversion"
proof (cases "simulation_dt e = 0")
  case True
  then show ?thesis by (simp add: loop_bound_def)
next
  case False
  then have "loop_bound e = double_to_int (loop_value (control_dt e) (simulation_dt e))"
    by (simp only: loop_bound_def if_False)
  moreover have "loop_value (control_dt e) (simulation_dt e) \<le> - (2 ^ 31) - 1 \<or>
           2 ^ 31 \<le> loop_value (control_dt e) (simulation_dt e)"
    using assms False by blast
  ultimately show ?thesis by (simp only: double_to_int_undefined)
qed

lemma loop_bound_cong:
  "control_dt e' = control_dt e \<Longrightarrow> simulation_dt e' = simulation_dt e \<Longrightarrow>
   loop_bound e' = loop_bound e"
  by (simp only: loop_bound_def)

lemma funpow_fields:
  "backend ((integrate_body integ ^^ k) e) = (integ ^^ k) (backend e)"
  "nJoints ((integrate_body integ ^^ k) e) = nJoints e"
  "gcDim ((integrate_body integ ^^ k) e) = gcDim e"
  "gvDim ((integrate_body integ ^^ k) e) = gvDim e"
  "obDim ((integrate_body integ ^^ k) e) = obDim e"
  "actionDim ((integrate_body integ ^^ k) e) = actionDim e"
  "obDouble ((integrate_body integ ^^ k) e) = obDouble e"
  "pTarget ((integrate_body integ ^^ k) e) = pTarget e"
  "vTarget ((integrate_body integ ^^ k) e) = vTarget e"
  "gcInit ((integrate_body integ ^^ k) e) = gcInit e"
  "gvInit ((integrate_body integ ^^ k) e) = gvInit e"
  "actionMean ((integrate_body integ ^^ k) e) = actionMean e"
  "actionStd ((integrate_body integ ^^ k) e) = actionStd e"
  "control_dt ((integrate_body integ ^^ k) e) = control_dt e"
  "simulation_dt ((integrate_body integ ^^ k) e) = simulation_dt e"
  by (simp_all add: integrate_body_funpow)

text \<open>The state in which step leaves the environment.\<close>

lemma targeted_fields:
  "pTarget (targeted e a) = take (length (pTarget e) - nat (nJoints e)) (pTarget e)
              @ map2 (+) (map2 (*) a (actionStd e)) (actionMean e)"
  "backend (targeted e a) = setPdTarget (pTarget (targeted e a)) (vTarget e) (backend e)"
  "server (targeted e a) = server e"
  "nJoints (targeted e a) = nJoints e"
  "gcDim (targeted e a) = gcDim e"
  "gvDim (targeted e a) = gvDim e"
  "obDim (targeted e a) = obDim e"
  "actionDim (targeted e a) = actionDim e"
  "obDouble (targeted e a) = obDouble e"
  "vTarget (targeted e a) = vTarget e"
  "gcInit (targeted e a) = gcInit e"
  "gvInit (targeted e a) = gvInit e"
  "actionMean (targeted e a) = actionMean e"
  "actionStd (targeted e a) = actionStd e"
  "control_dt (targeted e a) = control_dt e"
  "simulation_dt (targeted e a) = simulation_dt e"
  by (simp_all add: targeted_def Let_def)

lemma observed_fields:
  "backend (observed q e) = backend e"
  "server (observed q e) = server e"
  "pTarget (observed q e) = pTarget e"
  "vTarget (observed q e) = vTarget e"
  "nJoints (observed q e) = nJoints e"
  "gcDim (observed q e) = gcDim e"
  "gvDim (observed q e) = gvDim e"
  "obDim (observed q e) = obDim e"
  "actionDim (observed q e) = actionDim e"
  "gcInit (observed q e) = gcInit e"
  "gvInit (observed q e) = gvInit e"
  "actionMean (observed q e) = actionMean e"
  "actionStd (observed q e) = actionStd e"
  "control_dt (observed q e) = control_dt e"
  "simulation_dt (observed q e) = simulation_dt e"
  "gc (observed q e) = b_gc (backend e)"
  "gv (observed q e) = b_gv (backend e)"
  "obDouble (observed q e) =
     spec_observation q (nat (nJoints e)) (b_gc (backend e)) (b_gv (backend e))"
  "bodyLinearVel (observed q e) =
     transpose_mult (q (b_gc (backend e) ! 3, b_gc (backend e) ! 4,
                        b_gc (backend e) ! 5, b_gc (backend e) ! 6))
       (b_gv (backend e) ! 0, b_gv (backend e) ! 1, b_gv (backend e) ! 2)"
  by (simp_all add: observed_def Let_def)

lemma step_returns:
  assumes ok: "env_ok e" and kd: "nat n = 0 \<or> keeps_dims integ"
    and len: "int (length action) = actionDim e"
    and lb: "loop_bound e = Inr n"
  shows "step integ q e action =
       Returns (- (4 / 10 ^ 5) * squaredNorm (b_generalizedForce
                   (backend (observed q ((integrate_body integ ^^ nat n) (targeted e action)))))
                + 0.3 * min 4.0 (fst (bodyLinearVel
                   (observed q ((integrate_body integ ^^ nat n) (targeted e action))))))
         (observed q ((integrate_body integ ^^ nat n) (targeted e action)))"
proof -
  let ?e2 = "targeted e action"
  let ?e3 = "(integrate_body integ ^^ nat n) ?e2"
  have l1: "length action = length (actionStd e)" "length action = length (actionMean e)"
    "int (length action) = nJoints e" "0 \<le> nJoints e" "nJoints e \<le> int (length (pTarget e))"
    using ok len by (simp_all add: env_ok_def)
  have lb2: "loop_bound ?e2 = Inr n"
    using lb loop_bound_cong[of ?e2 e] by (simp add: targeted_fields)
  have loop: "integrate_loop integ 0 ?e2 = Returns () ?e3"
    using integrate_loop_returns[OF lb2, of integ 0] by simp
  have dims0: "length (b_gc (backend ?e3)) = length (b_gc (backend e)) \<and>
         length (b_gv (backend ?e3)) = length (b_gv (backend e))"
    using kd
  proof
    assume "nat n = 0"
    then show "length (b_gc (backend ?e3)) = length (b_gc (backend e)) \<and>
         length (b_gv (backend ?e3)) = length (b_gv (backend e))"
      by (simp add: targeted_fields setPdTarget_def)
  next
    assume "keeps_dims integ"
    from keeps_dims_funpow[OF this, of "nat n" "backend ?e2"]
    show "length (b_gc (backend ?e3)) = length (b_gc (backend e)) \<and>
         length (b_gv (backend ?e3)) = length (b_gv (backend e))"
      by (simp add: funpow_fields targeted_fields setPdTarget_def)
  qed
  have dims: "length (b_gc (backend ?e3)) = length (b_gc (backend e))"
    "length (b_gv (backend ?e3)) = length (b_gv (backend e))"
    using dims0 by blast+
  have f3: "nJoints ?e3 = nJoints e" "obDouble ?e3 = obDouble e"
    by (simp_all add: funpow_fields targeted_fields)
  have pre: "7 \<le> length (b_gc (backend ?e3))" "6 \<le> length (b_gv (backend ?e3))"
    "0 \<le> nJoints ?e3" "nJoints ?e3 \<le> int (length (b_gc (backend ?e3)))"
    "nJoints ?e3 \<le> int (length (b_gv (backend ?e3)))"
    "int (length (obDouble ?e3)) = 1 + 3 + 3 + 3 + nJoints ?e3 * 2"
    using ok unfolding dims f3 by (simp_all add: env_ok_def)
  have e4: "updateObservation q ?e3 = Returns () (observed q ?e3)"
    by (rule updateObservation_returns[OF pre])
  have first: "step integ q e action =
     (case integrate_loop integ 0 ?e2 of
        Aborts err e3 \<Rightarrow> Aborts err e3
      | Returns u e3 \<Rightarrow>
          (case updateObservation q e3 of
             Aborts err e4 \<Rightarrow> Aborts err e4
           | Returns u e4 \<Rightarrow>
               let re = - (4 / 10 ^ 5) * squaredNorm (b_generalizedForce (backend e4))
                        + 0.3 * min 4.0 (fst (bodyLinearVel e4))
               in Returns re e4))"
    using l1
    by (simp add: step_def checked_def cwiseProduct_def add_assign_def assign_tail_def Let_def
        targeted_def)
  show ?thesis by (simp add: first loop e4 Let_def)
qed

text \<open>With an undefined loop bound the step stops before the first sub-step, the targets
  already written.\<close>

lemma step_aborts:
  assumes ok: "env_ok e" and len: "int (length action) = actionDim e"
    and lb: "loop_bound e = Inl err"
  shows "step integ q e action = Aborts err (targeted e action)"
proof -
  let ?e2 = "targeted e action"
  have l1: "length action = length (actionStd e)" "length action = length (actionMean e)"
    "int (length action) = nJoints e" "0 \<le> nJoints e" "nJoints e \<le> int (length (pTarget e))"
    using ok len by (simp_all add: env_ok_def)
  have lb2: "loop_bound ?e2 = Inl err"
    using lb loop_bound_cong[of ?e2 e] by (simp add: targeted_fields)
  have loop: "integrate_loop integ 0 ?e2 = Aborts err ?e2"
    using lb2 by (rule integrate_loop_aborts)
  have first: "step integ q e action =
     (case integrate_loop integ 0 ?e2 of
        Aborts err e3 \<Rightarrow> Aborts err e3
      | Returns u e3 \<Rightarrow>
          (case updateObservation q e3 of
             Aborts err e4 \<Rightarrow> Aborts err e4
           | Returns u e4 \<Rightarrow>
               let re = - (4 / 10 ^ 5) * squaredNorm (b_generalizedForce (backend e4))
                        + 0.3 * min 4.0 (fst (bodyLinearVel e4))
               in Returns re e4))"
    using l1
    by (simp add: step_def checked_def cwiseProduct_def add_assign_def assign_tail_def Let_def
        targeted_def)
  show ?thesis by (simp add: first loop)
qed

subsection \<open>The invariant\<close>

lemmas ctor_defs = WalkerEnv_def createWorldAndRobot_def initializeContainers_def setPdGains_def
  initializeObservationSpace_def initializeVisualization_def bindE_def setZero_def comma_init_def
  tail_setConstant_def tail_def setGeneralizedForce_def setPdGains_backend_def Let_def

lemma WalkerEnv_env_ok:
  assumes "backend_ok (load dir)" and "WalkerEnv load dir vis dflt = Inr e"
  shows "env_ok e"
  using assms
  by (auto simp: ctor_defs backend_ok_def env_ok_def split: if_splits)

lemma example_env_constructed:
  "WalkerEnv example_world ''rsc/robot.urdf'' False example_defaults = Inr example_env"
  by (simp add: example_env_def ctor_defs example_world_def example_defaults_def)

lemma env_ok_example: "env_ok example_env"
  by (rule WalkerEnv_env_ok[OF _ example_env_constructed])
     (simp add: backend_ok_def example_world_def)

lemma example_env_fields:
  "server example_env = None"
  "gcDim example_env = 19" "gvDim example_env = 18" "nJoints example_env = 12"
  "obDim example_env = 34" "actionDim example_env = 12"
  "control_dt example_env = round_double 0.02"
  "simulation_dt example_env = round_double 0.005"
  "terminalRewardCoeff example_env = - 10"
  "footIndices example_env = {3, 6, 9, 12}"
  "length (gcInit example_env) = 19" "length (actionMean example_env) = 12"
  "length (actionStd example_env) = 12"
  by (auto simp add: example_env_def ctor_defs example_world_def example_defaults_def)

lemma env_okD:
  assumes "env_ok e"
  shows "7 \<le> gcDim e" and "nJoints e = gvDim e - 6" and "0 \<le> nJoints e"
    and "nJoints e \<le> gcDim e" and "actionDim e = nJoints e"
    and "obDim e = 1 + 3 + 3 + 3 + nJoints e * 2"
    and "int (length (pTarget e)) = gcDim e"
    and "take (nat (gcDim e - nJoints e)) (pTarget e) = replicate (nat (gcDim e - nJoints e)) 0"
    and "vTarget e = replicate (nat (gvDim e)) 0"
    and "int (length (gcInit e)) = gcDim e" and "int (length (gvInit e)) = gvDim e"
    and "int (length (actionMean e)) = actionDim e"
    and "int (length (actionStd e)) = actionDim e"
    and "int (length (obDouble e)) = obDim e"
    and "int (length (b_gc (backend e))) = gcDim e"
    and "int (length (b_gv (backend e))) = gvDim e"
  using assms unfolding env_ok_def by blast+

lemma keeps_dims_example: "keeps_dims example_integrate"
  by (simp add: keeps_dims_def example_integrate_def)

lemma example_env_timing:
  "control_dt example_env = 5764607523034235 / 2 ^ 58"
  "simulation_dt example_env = 5764607523034235 / 2 ^ 60"
  by (simp_all only: example_env_fields round_double_002 round_double_0005)

lemma loop_bound_is:
  assumes "simulation_dt e = s" and "control_dt e = c" and "loop_value c s = x"
    and "s \<noteq> 0" and "double_to_int x = r"
  shows "loop_bound e = r"
  using assms by (simp add: loop_bound_def)

lemma loop_bound_example: "loop_bound example_env = Inr 4"
  by (rule loop_bound_is[OF example_env_timing(2,1) loop_value_002_0005])
     (simp_all add: double_to_int_def)

lemma length_spec_observation:
  assumes "n \<le> length g" and "n \<le> length v"
  shows "length (spec_observation q n g v) = 10 + 2 * n"
  using assms by (simp add: spec_observation_def split: prod.splits)

lemma setControlTimeStep_env_ok:
  "env_ok e \<Longrightarrow> env_ok (final_state (setControlTimeStep e dt))"
  by (auto simp add: setControlTimeStep_def env_ok_def)

lemma setSimulationTimeStep_env_ok:
  "env_ok e \<Longrightarrow> env_ok (final_state (setSimulationTimeStep e dt))"
  by (auto simp add: setSimulationTimeStep_def env_ok_def)

lemma setInitConstants_env_ok:
  assumes "env_ok e" and "setInitConstants e a b c d p g = Returns u e'"
  shows "env_ok e'"
  using assms
  by (auto simp: setInitConstants_def env_ok_def setPdGains_backend_def split: if_splits)

lemma reset_returns:
  assumes "env_ok e"
  shows "reset q e = Returns () (observed q (e\<lparr>backend := setState (gcInit e) (gvInit e) (backend e)\<rparr>))"
  unfolding reset_def
  by (rule updateObservation_returns) (use assms in \<open>auto simp add: env_ok_def setState_def\<close>)

lemma observed_env_ok:
  assumes "env_ok e"
  shows "env_ok (observed q e)"
proof -
  have "nat (nJoints e) \<le> length (b_gc (backend e))" "nat (nJoints e) \<le> length (b_gv (backend e))"
    using assms by (auto simp add: env_ok_def)
  from length_spec_observation[OF this, of q] assms
  show ?thesis by (auto simp add: env_ok_def observed_fields)
qed

lemma reset_env_ok:
  assumes "env_ok e"
  shows "env_ok (final_state (reset q e))"
proof -
  have "env_ok (e\<lparr>backend := setState (gcInit e) (gvInit e) (backend e)\<rparr>)"
    using assms by (auto simp add: env_ok_def setState_def)
  then show ?thesis by (simp add: reset_returns[OF assms] observed_env_ok)
qed

lemma step_env_ok:
  assumes "env_ok e" and "keeps_dims integ" and "int (length action) = actionDim e"
    and "loop_bound e = Inr n"
  shows "env_ok (final_state (step integ q e action))"
proof -
  let ?e2 = "targeted e action"
  let ?e3 = "(integrate_body integ ^^ nat n) ?e2"
  have l: "length (pTarget e) - nat (nJoints e) = nat (gcDim e - nJoints e)"
    "length action = length (actionStd e)" "length action = length (actionMean e)"
    "length action = nat (nJoints e)"
    using assms(1,3) by (auto simp add: env_ok_def)
  have "env_ok ?e3"
    using assms(1) keeps_dims_funpow[OF assms(2), of "nat n" "backend ?e2"] l
    by (auto simp add: env_ok_def funpow_fields targeted_fields setPdTarget_def)
  then have "env_ok (observed q ?e3)" by (rule observed_env_ok)
  then show ?thesis
    using step_returns[OF assms(1) disjI2[OF assms(2)] assms(3,4), of q] by simp
qed

lemma step_returns_pre:
  assumes "env_ok e" and "step integ q e action = Returns re e'"
  shows "int (length action) = actionDim e \<and> (\<exists>n. loop_bound e = Inr n)"
proof -
  note ok = env_okD[OF assms(1)]
  have len: "length action = length (actionStd e)"
  proof (rule ccontr)
    assume "length action \<noteq> length (actionStd e)"
    then have "step integ q e action =
       Aborts (AssertionFailed ''aLhs.rows() == aRhs.rows()'') e"
      by (simp add: step_def checked_def cwiseProduct_def)
    with assms(2) show False by simp
  qed
  then have l: "int (length action) = actionDim e" using ok(13) by simp
  have l1: "length action = length (actionMean e)" "int (length action) = nJoints e"
    "0 \<le> nJoints e" "nJoints e \<le> int (length (pTarget e))"
    using l ok(3,4,5,7,12) by simp_all
  have first: "step integ q e action =
     (case integrate_loop integ 0 (targeted e action) of
        Aborts err e3 \<Rightarrow> Aborts err e3
      | Returns u e3 \<Rightarrow>
          (case updateObservation q e3 of
             Aborts err e4 \<Rightarrow> Aborts err e4
           | Returns u e4 \<Rightarrow>
               let re = - (4 / 10 ^ 5) * squaredNorm (b_generalizedForce (backend e4))
                        + 0.3 * min 4.0 (fst (bodyLinearVel e4))
               in Returns re e4))"
    using len l1
    by (simp add: step_def checked_def cwiseProduct_def add_assign_def assign_tail_def Let_def
        targeted_def)
  have "\<exists>n. loop_bound e = Inr n"
  proof (cases "loop_bound e")
    case (Inl err)
    then have "loop_bound (targeted e action) = Inl err"
      using loop_bound_cong[of "targeted e action" e] by (simp add: targeted_fields)
    then have "integrate_loop integ 0 (targeted e action) = Aborts err (targeted e action)"
      by (rule integrate_loop_aborts)
    then have "step integ q e action = Aborts err (targeted e action)"
      unfolding first by simp
    with assms(2) show ?thesis by simp
  next
    case (Inr n)
    then show ?thesis by blast
  qed
  with l show ?thesis by blast
qed

lemma reachable_env_ok:
  assumes "backend_ok (load dir)" and "keeps_dims integrate"
    and "reachable load dir vis dflt integrate quatToRotMat e"
  shows "env_ok e"
  using assms(3)
proof (induction rule: reachable.induct)
  case (constructed e)
  then show ?case using WalkerEnv_env_ok[of load dir vis dflt e] assms(1) by blast
next
  case (after_setInitConstants e a b c d p g u e')
  then show ?case using setInitConstants_env_ok by blast
next
  case (after_init e u e')
  then show ?case using reset_env_ok[of e quatToRotMat] by (simp add: init_def reset_def)
next
  case (after_reset e u e')
  then show ?case using reset_env_ok[of e quatToRotMat] by simp
next
  case (after_step e action re e')
  from step_returns_pre[OF after_step.IH after_step.hyps(2)]
  obtain n where "int (length action) = actionDim e" "loop_bound e = Inr n" by blast
  from step_env_ok[OF after_step.IH assms(2) this, of quatToRotMat]
  show ?case using after_step.hyps(2) by simp
next
  case (after_setSimulationTimeStep e dt u e')
  then show ?case using setSimulationTimeStep_env_ok[of e dt] by simp
next
  case (after_setControlTimeStep e dt u e')
  then show ?case using setControlTimeStep_env_ok[of e dt] by simp
next
  case (after_turnOffVisualization e u e')
  then show ?case
    by (auto simp: turnOffVisualization_def env_ok_def split: option.splits)
next
  case (after_turnOnVisualization e u e')
  then show ?case
    by (auto simp: turnOnVisualization_def env_ok_def split: option.splits)
next
  case (after_startRecordingVideo e videoName u e')
  then show ?case
    by (auto simp: startRecordingVideo_def env_ok_def split: option.splits)
next
  case (after_stopRecordingVideo e u e')
  then show ?case
    by (auto simp: stopRecordingVideo_def env_ok_def split: option.splits)
qed

subsection \<open>Claims\<close>

text \<open>C1. For every action vector of length \<open>actionDim\<close>, in a well-formed environment
  whose timing configuration gives the integration loop a defined bound, \<open>step\<close> returns,
  and afterwards the joint tail of the position target is \<open>action * actionStd + actionMean\<close>
  element by element, the first \<open>gcDim - nJoints\<close> entries of the position target are zero,
  and the velocity target is the zero vector of length \<open>gvDim\<close>.\<close>

theorem step_pd_targets:
  assumes "env_ok e" and "keeps_dims integrate"
    and "int (length action) = actionDim e" and "loop_bound e = Inr n"
  shows "\<exists>re e'. step integrate quatToRotMat e action = Returns re e' \<and>
           gcDim e' = gcDim e \<and> gvDim e' = gvDim e \<and> nJoints e' = nJoints e \<and>
           actionStd e' = actionStd e \<and> actionMean e' = actionMean e \<and>
           int (length (pTarget e')) = gcDim e \<and>
           drop (nat (gcDim e - nJoints e)) (pTarget e') =
             map2 (+) (map2 (*) action (actionStd e)) (actionMean e) \<and>
           (\<forall>j < nat (nJoints e).
              pTarget e' ! (nat (gcDim e - nJoints e) + j) =
                action ! j * actionStd e ! j + actionMean e ! j) \<and>
           take (nat (gcDim e - nJoints e)) (pTarget e') =
             replicate (nat (gcDim e - nJoints e)) 0 \<and>
           vTarget e' = replicate (nat (gvDim e)) 0"
proof -
  let ?new = "map2 (+) (map2 (*) action (actionStd e)) (actionMean e)"
  let ?k = "nat (gcDim e - nJoints e)"
  let ?e' = "observed quatToRotMat ((integrate_body integrate ^^ nat n) (targeted e action))"
  have st: "step integrate quatToRotMat e action =
       Returns (- (4 / 10 ^ 5) * squaredNorm (b_generalizedForce (backend ?e'))
                + 0.3 * min 4.0 (fst (bodyLinearVel ?e'))) ?e'"
    by (rule step_returns[OF assms(1) disjI2[OF assms(2)] assms(3,4)])
  have l: "length (pTarget e) - nat (nJoints e) = ?k" "?k \<le> length (pTarget e)"
    "length action = nat (nJoints e)" "length (actionStd e) = nat (nJoints e)"
    "length (actionMean e) = nat (nJoints e)" "int (length (pTarget e)) = gcDim e"
    "0 \<le> nJoints e" "nJoints e \<le> gcDim e"
    using assms(1,3) by (auto simp add: env_ok_def)
  have p: "pTarget ?e' = take ?k (pTarget e) @ ?new"
    by (simp add: observed_fields funpow_fields targeted_fields l(1))
  have lt: "length (take ?k (pTarget e)) = ?k" using l(2) by simp
  have ln: "length ?new = nat (nJoints e)" using l(3,4,5) by simp
  have a: "int (length (pTarget ?e')) = gcDim e"
    unfolding p using lt ln l(7,8) by simp
  have b: "drop ?k (pTarget ?e') = ?new" unfolding p using lt by simp
  have c: "\<forall>j < nat (nJoints e).
              pTarget ?e' ! (?k + j) = action ! j * actionStd e ! j + actionMean e ! j"
  proof (intro allI impI)
    fix j assume j: "j < nat (nJoints e)"
    have "pTarget ?e' ! (?k + j) = ?new ! j"
      unfolding p using lt by (metis nth_append_length_plus)
    also have "\<dots> = action ! j * actionStd e ! j + actionMean e ! j"
      using j l(3,4,5) by simp
    finally show "pTarget ?e' ! (?k + j) = action ! j * actionStd e ! j + actionMean e ! j" .
  qed
  have d: "take ?k (pTarget ?e') = replicate ?k 0"
    unfolding p using lt env_okD(8)[OF assms(1)] by simp
  have f: "vTarget ?e' = replicate (nat (gvDim e)) 0"
    using env_okD(9)[OF assms(1)] by (simp add: observed_fields funpow_fields targeted_fields)
  have g: "gcDim ?e' = gcDim e" "gvDim ?e' = gvDim e" "nJoints ?e' = nJoints e"
    "actionStd ?e' = actionStd e" "actionMean ?e' = actionMean e"
    by (simp_all add: observed_fields funpow_fields targeted_fields)
  show ?thesis using st a b c d f g by blast
qed

theorem step_pd_targets_witness:
  "env_ok example_env \<and> keeps_dims example_integrate \<and>
   int (length example_action) = actionDim example_env \<and> loop_bound example_env = Inr 4 \<and>
   (\<exists>re e'. step example_integrate example_quatToRotMat example_env example_action = Returns re e' \<and>
      drop 7 (pTarget e') =
        map2 (+) (map2 (*) example_action (actionStd example_env)) (actionMean example_env) \<and>
      take 7 (pTarget e') = replicate 7 0 \<and>
      vTarget e' = replicate 18 0)"
proof -
  have h3: "int (length example_action) = actionDim example_env"
    by (simp add: example_action_def example_env_fields)
  from step_pd_targets[OF env_ok_example keeps_dims_example h3 loop_bound_example,
      of example_quatToRotMat]
  show ?thesis
    using env_ok_example keeps_dims_example h3 loop_bound_example
    by (auto simp add: example_env_fields)
qed

lemma observed_current:
  assumes "env_ok e"
  shows "observation_current q (observed q e)"
proof -
  note ok = env_okD[OF assms]
  have "nat (nJoints e) \<le> length (b_gc (backend e))" "nat (nJoints e) \<le> length (b_gv (backend e))"
    using ok(2,3,4,15,16) by simp_all
  from length_spec_observation[OF this, of q]
  show ?thesis
    using ok(3,6) by (simp add: observation_current_def observed_fields)
qed

text \<open>C2. In a well-formed environment \<open>updateObservation\<close> returns and leaves the observation
  current: of length \<open>obDim = 1 + 3 + 3 + 3 + 2 * nJoints\<close> and equal to base height, third
  row of the rotation matrix, joint angles, base linear velocity and base angular velocity
  rotated by the transposed matrix, joint velocities, in this order. The same holds after
  \<open>reset\<close>, where the coordinates and velocities are the initial ones, and after \<open>step\<close>.\<close>

theorem updateObservation_layout:
  assumes "env_ok e"
  shows "(\<exists>e'. updateObservation quatToRotMat e = Returns () e' \<and>
                observation_current quatToRotMat e' \<and>
                backend e' = backend e \<and> nJoints e' = nJoints e) \<and>
         (\<exists>e'. reset quatToRotMat e = Returns () e' \<and>
                observation_current quatToRotMat e' \<and>
                gc e' = gcInit e \<and> gv e' = gvInit e \<and> nJoints e' = nJoints e) \<and>
         (\<forall>integrate action n.
            keeps_dims integrate \<longrightarrow> int (length action) = actionDim e \<longrightarrow>
            loop_bound e = Inr n \<longrightarrow>
            (\<exists>re e'. step integrate quatToRotMat e action = Returns re e' \<and>
                      observation_current quatToRotMat e' \<and> nJoints e' = nJoints e))"
proof (intro conjI allI impI)
  note ok = env_okD[OF assms]
  have pre: "7 \<le> length (b_gc (backend e))" "6 \<le> length (b_gv (backend e))"
    "0 \<le> nJoints e" "nJoints e \<le> int (length (b_gc (backend e)))"
    "nJoints e \<le> int (length (b_gv (backend e)))"
    "int (length (obDouble e)) = 1 + 3 + 3 + 3 + nJoints e * 2"
    using ok(1,2,3,4,6,14,15,16) by simp_all
  have "updateObservation quatToRotMat e = Returns () (observed quatToRotMat e)"
    by (rule updateObservation_returns[OF pre])
  then show "\<exists>e'. updateObservation quatToRotMat e = Returns () e' \<and>
                observation_current quatToRotMat e' \<and>
                backend e' = backend e \<and> nJoints e' = nJoints e"
    using observed_current[OF assms, of quatToRotMat] by (simp add: observed_fields)
next
  let ?e0 = "e\<lparr>backend := setState (gcInit e) (gvInit e) (backend e)\<rparr>"
  have ok0: "env_ok ?e0"
    using assms by (auto simp add: env_ok_def setState_def)
  show "\<exists>e'. reset quatToRotMat e = Returns () e' \<and>
                observation_current quatToRotMat e' \<and>
                gc e' = gcInit e \<and> gv e' = gvInit e \<and> nJoints e' = nJoints e"
    using reset_returns[OF assms, of quatToRotMat] observed_current[OF ok0, of quatToRotMat]
    by (simp add: observed_fields setState_def)
next
  fix integrate :: "backend \<Rightarrow> backend" and action :: vec and n :: int
  assume h: "keeps_dims integrate" "int (length action) = actionDim e" "loop_bound e = Inr n"
  let ?e3 = "(integrate_body integrate ^^ nat n) (targeted e action)"
  have len: "length action = length (actionStd e)" "length action = length (actionMean e)"
    "length (pTarget e) - nat (nJoints e) = nat (gcDim e - nJoints e)"
    "length action = nat (nJoints e)"
    using env_okD(3,4,5,7,12,13)[OF assms] h(2) by simp_all
  have ok3: "env_ok ?e3"
    using assms keeps_dims_funpow[OF h(1), of "nat n" "backend (targeted e action)"] len
    by (auto simp add: env_ok_def funpow_fields targeted_fields setPdTarget_def)
  show "\<exists>re e'. step integrate quatToRotMat e action = Returns re e' \<and>
                  observation_current quatToRotMat e' \<and> nJoints e' = nJoints e"
    using step_returns[OF assms disjI2[OF h(1)] h(2,3), of quatToRotMat]
      observed_current[OF ok3, of quatToRotMat]
    by (simp add: observed_fields funpow_fields targeted_fields)
qed

lemma example_quatToRotMat_identity:
  "example_quatToRotMat (1, 0, 0, 0) = ((1, 0, 0), (0, 1, 0), (0, 0, 1))"
  by (simp add: example_quatToRotMat_def)

lemma example_env_vectors:
  "gcInit example_env = [0, 0, 0.5, 1, 0, 0, 0, 0.03, 0.4, - 0.8, - 0.03, 0.4, - 0.8,
                         0.03, - 0.4, 0.8, - 0.03, - 0.4, 0.8]"
  "gvInit example_env = replicate 18 0"
  "actionMean example_env = [0.03, 0.4, - 0.8, - 0.03, 0.4, - 0.8,
                             0.03, - 0.4, 0.8, - 0.03, - 0.4, 0.8]"
  "actionStd example_env = replicate 12 0.3"
  by (simp_all add: example_env_def ctor_defs example_world_def example_defaults_def)

theorem updateObservation_layout_witness:
  "env_ok example_env \<and>
   (\<exists>e'. reset example_quatToRotMat example_env = Returns () e' \<and>
      observation_current example_quatToRotMat e' \<and>
      obDouble e' = [0.5, 0, 0, 1,
                     0.03, 0.4, - 0.8, - 0.03, 0.4, - 0.8, 0.03, - 0.4, 0.8, - 0.03, - 0.4, 0.8,
                     0, 0, 0, 0, 0, 0,
                     0, 0, 0, 0, 0, 0, 0, 0, 0, 0, 0, 0]) \<and>
   keeps_dims example_integrate \<and> int (length example_action) = actionDim example_env \<and>
   loop_bound example_env = Inr 4 \<and>
   (\<exists>re e'. step example_integrate example_quatToRotMat example_env example_action
               = Returns re e' \<and>
      observation_current example_quatToRotMat e')"
proof -
  note layout = updateObservation_layout[OF env_ok_example, of example_quatToRotMat]
  from layout
  obtain e' where e': "reset example_quatToRotMat example_env = Returns () e'"
    "observation_current example_quatToRotMat e'"
    "gc e' = gcInit example_env" "gv e' = gvInit example_env" "nJoints e' = nJoints example_env"
    by blast
  have "obDouble e' = spec_observation example_quatToRotMat 12
          (gcInit example_env) (gvInit example_env)"
    using e'(2,3,4,5) by (simp add: observation_current_def example_env_fields)
  also have "\<dots> = [0.5, 0, 0, 1,
                     0.03, 0.4, - 0.8, - 0.03, 0.4, - 0.8, 0.03, - 0.4, 0.8, - 0.03, - 0.4, 0.8,
                     0, 0, 0, 0, 0, 0,
                     0, 0, 0, 0, 0, 0, 0, 0, 0, 0, 0, 0]"
    by (simp add: spec_observation_def example_env_vectors example_quatToRotMat_identity
        eval_nat_numeral)
  finally have ob: "obDouble e' = [0.5, 0, 0, 1,
                     0.03, 0.4, - 0.8, - 0.03, 0.4, - 0.8, 0.03, - 0.4, 0.8, - 0.03, - 0.4, 0.8,
                     0, 0, 0, 0, 0, 0,
                     0, 0, 0, 0, 0, 0, 0, 0, 0, 0, 0, 0]" .
  have r: "\<exists>e'. reset example_quatToRotMat example_env = Returns () e' \<and>
      observation_current example_quatToRotMat e' \<and>
      obDouble e' = [0.5, 0, 0, 1,
                     0.03, 0.4, - 0.8, - 0.03, 0.4, - 0.8, 0.03, - 0.4, 0.8, - 0.03, - 0.4, 0.8,
                     0, 0, 0, 0, 0, 0,
                     0, 0, 0, 0, 0, 0, 0, 0, 0, 0, 0, 0]"
    using e'(1,2) ob by blast
  have h3: "int (length example_action) = actionDim example_env"
    by (simp add: example_action_def example_env_fields)
  from layout keeps_dims_example h3 loop_bound_example
  have s: "\<exists>re e'. step example_integrate example_quatToRotMat example_env example_action
               = Returns re e' \<and>
      observation_current example_quatToRotMat e'"
    by blast
  show ?thesis
    using env_ok_example r keeps_dims_example h3 loop_bound_example s by (intro conjI)
qed

lemma setInitConstants_returns:
  assumes "int (length a) = gcDim e" and "int (length b) = gvDim e"
    and "int (length c) = actionDim e" and "int (length d) = actionDim e"
    and "int (length p) = gvDim e" and "int (length g) = gvDim e"
  shows "setInitConstants e a b c d p g =
           Returns () (e\<lparr>gcInit := a, gvInit := b, actionMean := c, actionStd := d,
                          backend := setPdGains_backend p g (backend e)\<rparr>)"
  using assms by (simp add: setInitConstants_def)

lemma example_integrate_funpow:
  "b_gv ((example_integrate ^^ k) b) = b_gv b"
  "length (b_gc ((example_integrate ^^ k) b)) = length (b_gc b)"
  "0 < i \<Longrightarrow> b_gc ((example_integrate ^^ k) b) ! i = b_gc b ! i"
  "b_gc b \<noteq> [] \<Longrightarrow> b_gc ((example_integrate ^^ k) b) ! 0 = b_gc b ! 0 + real k"
  "b_generalizedForce ((example_integrate ^^ k) b) = b_generalizedForce b"
  by (induction k) (simp_all add: example_integrate_def)

lemma example_integrate_pd_funpow:
  "b_gv ((example_integrate_pd ^^ k) b) = b_gv b"
  "b_gc ((example_integrate_pd ^^ k) b) = b_gc b"
  "b_pGain ((example_integrate_pd ^^ k) b) = b_pGain b"
  "b_pTarget ((example_integrate_pd ^^ k) b) = b_pTarget b"
  by (induction k) (simp_all add: example_integrate_pd_def)

lemma example_integrate_pd_force:
  "b_generalizedForce ((example_integrate_pd ^^ Suc k) b) =
     replicate 6 0 @
     map2 (*) (drop 6 (b_pGain b)) (map2 (-) (drop 7 (b_pTarget b)) (drop 7 (b_gc b)))"
  by (simp add: example_integrate_pd_def example_integrate_pd_funpow)

lemma keeps_dims_example_pd: "keeps_dims example_integrate_pd"
  by (simp add: keeps_dims_def example_integrate_pd_def)

lemma example_quatToRotMat_turned:
  "example_quatToRotMat (0.6, 0, 0, 0.8) =
     ((- 0.28, - 0.96, 0), (0.96, - 0.28, 0), (0, 0, 1))"
  by (simp add: example_quatToRotMat_def)

lemma example_env_turned_eq:
  "example_env_turned =
     observed example_quatToRotMat
       (example_env\<lparr>gcInit := [0, 0, 0.5, 0.6, 0, 0, 0.8] @ drop 7 (gcInit example_env),
                     gvInit := [- 2.8, 9.6, 0] @ replicate 15 0,
                     backend := setState
                       ([0, 0, 0.5, 0.6, 0, 0, 0.8] @ drop 7 (gcInit example_env))
                       ([- 2.8, 9.6, 0] @ replicate 15 0)
                       (setPdGains_backend (replicate 6 0 @ replicate 12 50)
                          (replicate 6 0 @ replicate 12 0.2) (backend example_env))\<rparr>)"
  and env_ok_example_turned: "env_ok example_env_turned"
proof -
  let ?G = "[0, 0, 0.5, 0.6, 0, 0, 0.8] @ drop 7 (gcInit example_env)"
  let ?V = "[- 2.8, 9.6, 0] @ replicate 15 (0::real)"
  let ?P = "replicate 6 0 @ replicate 12 (50::real)"
  let ?D = "replicate 6 0 @ replicate 12 (0.2::real)"
  let ?e1 = "example_env\<lparr>gcInit := ?G, gvInit := ?V,
       actionMean := actionMean example_env, actionStd := actionStd example_env,
       backend := setPdGains_backend ?P ?D (backend example_env)\<rparr>"
  have s: "setInitConstants example_env ?G ?V (actionMean example_env) (actionStd example_env)
             ?P ?D = Returns () ?e1"
    by (rule setInitConstants_returns) (simp_all add: example_env_fields)
  have ok1: "env_ok ?e1"
    by (rule setInitConstants_env_ok[OF env_ok_example s])
  have e1: "?e1 = example_env\<lparr>gcInit := ?G, gvInit := ?V,
       backend := setPdGains_backend ?P ?D (backend example_env)\<rparr>"
    by simp
  have t: "example_env_turned = final_state (reset example_quatToRotMat ?e1)"
    unfolding example_env_turned_def s by simp
  also have "\<dots> = observed example_quatToRotMat
                      (?e1\<lparr>backend := setState (gcInit ?e1) (gvInit ?e1) (backend ?e1)\<rparr>)"
    unfolding reset_returns[OF ok1] by simp
  finally show "example_env_turned =
     observed example_quatToRotMat
       (example_env\<lparr>gcInit := ?G, gvInit := ?V,
                     backend := setState ?G ?V
                       (setPdGains_backend ?P ?D (backend example_env))\<rparr>)"
    by (simp add: e1)
  show "env_ok example_env_turned"
    unfolding t by (rule reset_env_ok[OF ok1])
qed

lemma example_env_turned_fields:
  "actionDim example_env_turned = 12"
  "control_dt example_env_turned = control_dt example_env"
  "simulation_dt example_env_turned = simulation_dt example_env"
  "b_gv (backend example_env_turned) = [- 2.8, 9.6, 0] @ replicate 15 0"
  "b_gc (backend example_env_turned)
     = [0, 0, 0.5, 0.6, 0, 0, 0.8] @ drop 7 (gcInit example_env)"
  "b_pGain (backend example_env_turned) = replicate 6 0 @ replicate 12 50"
  "actionStd example_env_turned = actionStd example_env"
  "actionMean example_env_turned = actionMean example_env"
  "vTarget example_env_turned = vTarget example_env"
  "pTarget example_env_turned = pTarget example_env"
  "nJoints example_env_turned = 12"
  by (simp_all add: example_env_turned_eq observed_fields example_env_fields(1-6) setState_def
      setPdGains_backend_def)

lemma example_env_turned_timing:
  "control_dt example_env_turned = 5764607523034235 / 2 ^ 58"
  "simulation_dt example_env_turned = 5764607523034235 / 2 ^ 60"
  by (simp_all only: example_env_turned_fields example_env_timing)

lemma loop_bound_example_turned: "loop_bound example_env_turned = Inr 4"
  by (rule loop_bound_is[OF example_env_turned_timing(2,1) loop_value_002_0005])
     (simp_all add: double_to_int_def)

text \<open>C3. In a well-formed environment with a defined loop bound, \<open>step\<close> returns the reward
  \<open>-4e-5 * (sum of the squares of the robot's generalized force) + 0.3 * min 4 x\<close>, where
  the force and the velocity are those of the robot after the sub-steps, and \<open>x\<close> is the first
  component of the transposed rotation matrix applied to the base linear velocity,
  \<open>r00 * v0 + r10 * v1 + r20 * v2\<close>. The velocity term is at most 1.2, and it is the same,
  \<open>0.3 * 4\<close>, at \<open>x = 10\<close> and at \<open>x = 4\<close>.\<close>

theorem step_reward:
  assumes "env_ok e" and "keeps_dims integrate"
    and "int (length action) = actionDim e" and "loop_bound e = Inr n"
  shows "\<exists>re e'. step integrate quatToRotMat e action = Returns re e' \<and>
           backend e' = (integrate ^^ nat n)
                          (setPdTarget (pTarget e') (vTarget e') (backend e)) \<and>
           (\<forall>r00 r01 r02 r10 r11 r12 r20 r21 r22.
              quatToRotMat (b_gc (backend e') ! 3, b_gc (backend e') ! 4,
                            b_gc (backend e') ! 5, b_gc (backend e') ! 6)
                = ((r00, r01, r02), (r10, r11, r12), (r20, r21, r22)) \<longrightarrow>
              fst (bodyLinearVel e') =
                r00 * b_gv (backend e') ! 0 + r10 * b_gv (backend e') ! 1
                + r20 * b_gv (backend e') ! 2 \<and>
              re = - (4 / 10 ^ 5) * (\<Sum>f\<leftarrow>b_generalizedForce (backend e'). f * f)
                   + 0.3 * min 4 (r00 * b_gv (backend e') ! 0 + r10 * b_gv (backend e') ! 1
                                  + r20 * b_gv (backend e') ! 2)) \<and>
           re = - (4 / 10 ^ 5) * (\<Sum>f\<leftarrow>b_generalizedForce (backend e'). f * f)
                + 0.3 * min 4 (fst (bodyLinearVel e')) \<and>
           0.3 * min 4 (fst (bodyLinearVel e')) \<le> 1.2 \<and>
           (fst (bodyLinearVel e') = 10 \<longrightarrow>
              re = - (4 / 10 ^ 5) * (\<Sum>f\<leftarrow>b_generalizedForce (backend e'). f * f) + 0.3 * 4) \<and>
           (fst (bodyLinearVel e') = 4 \<longrightarrow>
              re = - (4 / 10 ^ 5) * (\<Sum>f\<leftarrow>b_generalizedForce (backend e'). f * f) + 0.3 * 4)"
proof -
  let ?e' = "observed quatToRotMat ((integrate_body integrate ^^ nat n) (targeted e action))"
  let ?re = "- (4 / 10 ^ 5) * squaredNorm (b_generalizedForce (backend ?e'))
                + 0.3 * min 4.0 (fst (bodyLinearVel ?e'))"
  let ?F = "\<Sum>f\<leftarrow>b_generalizedForce (backend ?e'). f * f"
  have st: "step integrate quatToRotMat e action = Returns ?re ?e'"
    by (rule step_returns[OF assms(1) disjI2[OF assms(2)] assms(3,4)])
  have bk: "backend ?e' = (integrate ^^ nat n)
                          (setPdTarget (pTarget ?e') (vTarget ?e') (backend e))"
    by (simp add: observed_fields funpow_fields targeted_fields)
  have r: "?re = - (4 / 10 ^ 5) * ?F + 0.3 * min 4 (fst (bodyLinearVel ?e'))"
    by (simp add: squaredNorm_def)
  have v: "bodyLinearVel ?e' =
             transpose_mult
               (quatToRotMat (b_gc (backend ?e') ! 3, b_gc (backend ?e') ! 4,
                              b_gc (backend ?e') ! 5, b_gc (backend ?e') ! 6))
               (b_gv (backend ?e') ! 0, b_gv (backend ?e') ! 1, b_gv (backend ?e') ! 2)"
    by (simp add: observed_fields)
  have x: "\<forall>r00 r01 r02 r10 r11 r12 r20 r21 r22.
              quatToRotMat (b_gc (backend ?e') ! 3, b_gc (backend ?e') ! 4,
                            b_gc (backend ?e') ! 5, b_gc (backend ?e') ! 6)
                = ((r00, r01, r02), (r10, r11, r12), (r20, r21, r22)) \<longrightarrow>
              fst (bodyLinearVel ?e') =
                r00 * b_gv (backend ?e') ! 0 + r10 * b_gv (backend ?e') ! 1
                + r20 * b_gv (backend ?e') ! 2 \<and>
              ?re = - (4 / 10 ^ 5) * ?F
                   + 0.3 * min 4 (r00 * b_gv (backend ?e') ! 0 + r10 * b_gv (backend ?e') ! 1
                                  + r20 * b_gv (backend ?e') ! 2)"
  proof (intro allI impI)
    fix r00 r01 r02 r10 r11 r12 r20 r21 r22 :: real
    assume R: "quatToRotMat (b_gc (backend ?e') ! 3, b_gc (backend ?e') ! 4,
                            b_gc (backend ?e') ! 5, b_gc (backend ?e') ! 6)
                = ((r00, r01, r02), (r10, r11, r12), (r20, r21, r22))"
    have f: "fst (bodyLinearVel ?e') =
                r00 * b_gv (backend ?e') ! 0 + r10 * b_gv (backend ?e') ! 1
                + r20 * b_gv (backend ?e') ! 2"
      unfolding v R by (simp add: transpose_mult_def)
    show "fst (bodyLinearVel ?e') =
                r00 * b_gv (backend ?e') ! 0 + r10 * b_gv (backend ?e') ! 1
                + r20 * b_gv (backend ?e') ! 2 \<and>
              ?re = - (4 / 10 ^ 5) * ?F
                   + 0.3 * min 4 (r00 * b_gv (backend ?e') ! 0 + r10 * b_gv (backend ?e') ! 1
                                  + r20 * b_gv (backend ?e') ! 2)"
      using f r by simp
  qed
  have b: "0.3 * min 4 (fst (bodyLinearVel ?e')) \<le> (1.2 :: real)"
    by (simp add: min_def)
  have c10: "fst (bodyLinearVel ?e') = 10 \<longrightarrow> ?re = - (4 / 10 ^ 5) * ?F + 0.3 * 4"
    unfolding r by simp
  have c4: "fst (bodyLinearVel ?e') = 4 \<longrightarrow> ?re = - (4 / 10 ^ 5) * ?F + 0.3 * 4"
    unfolding r by simp
  show ?thesis
    by (intro exI conjI) (rule st, rule bk, rule x, rule r, rule b, rule c10, rule c4)
qed

theorem step_reward_witness:
  "env_ok example_env_turned \<and> keeps_dims example_integrate_pd \<and>
   int (length example_action) = actionDim example_env_turned \<and>
   loop_bound example_env_turned = Inr 4 \<and>
   (\<exists>re e'. step example_integrate_pd example_quatToRotMat example_env_turned example_action
               = Returns re e' \<and>
      example_quatToRotMat (b_gc (backend e') ! 3, b_gc (backend e') ! 4,
                            b_gc (backend e') ! 5, b_gc (backend e') ! 6)
        = ((- 0.28, - 0.96, 0), (0.96, - 0.28, 0), (0, 0, 1)) \<and>
      b_gv (backend e') ! 0 = - 2.8 \<and> b_gv (backend e') ! 1 = 9.6 \<and>
      b_gv (backend e') ! 2 = 0 \<and>
      fst (bodyLinearVel e') = 10 \<and>
      b_generalizedForce (backend e')
        = [0, 0, 0, 0, 0, 0, 15, 0, - 15, 15, 0, - 15, 15, 0, - 15, 15, 0, - 15] \<and>
      re = - (4 / 10 ^ 5) * 1800 + 0.3 * 4 \<and> re = 1.128)"
proof -
  have h3: "int (length example_action) = actionDim example_env_turned"
    by (simp add: example_action_def example_env_turned_fields)
  note h4 = loop_bound_example_turned
  from step_reward[OF env_ok_example_turned keeps_dims_example_pd h3 h4,
      of example_quatToRotMat]
  obtain re e' where s:
    "step example_integrate_pd example_quatToRotMat example_env_turned example_action
       = Returns re e'"
    "backend e' = (example_integrate_pd ^^ nat 4)
                    (setPdTarget (pTarget e') (vTarget e') (backend example_env_turned))"
    "\<forall>r00 r01 r02 r10 r11 r12 r20 r21 r22.
        example_quatToRotMat (b_gc (backend e') ! 3, b_gc (backend e') ! 4,
                            b_gc (backend e') ! 5, b_gc (backend e') ! 6)
          = ((r00, r01, r02), (r10, r11, r12), (r20, r21, r22)) \<longrightarrow>
        fst (bodyLinearVel e') =
          r00 * b_gv (backend e') ! 0 + r10 * b_gv (backend e') ! 1
          + r20 * b_gv (backend e') ! 2 \<and>
        re = - (4 / 10 ^ 5) * (\<Sum>f\<leftarrow>b_generalizedForce (backend e'). f * f)
             + 0.3 * min 4 (r00 * b_gv (backend e') ! 0 + r10 * b_gv (backend e') ! 1
                            + r20 * b_gv (backend e') ! 2)"
    by blast
  have e': "e' = observed example_quatToRotMat
              ((integrate_body example_integrate_pd ^^ nat 4)
                 (targeted example_env_turned example_action))"
    using s(1) step_returns[OF env_ok_example_turned disjI2[OF keeps_dims_example_pd] h3 h4,
        of example_quatToRotMat]
    by simp
  have pt: "pTarget e' = replicate 7 0 @
      map2 (+) (map2 (*) example_action (actionStd example_env)) (actionMean example_env)"
    unfolding e'
    by (simp add: observed_fields funpow_fields targeted_fields example_env_turned_fields)
       (simp add: example_env_def ctor_defs example_world_def example_defaults_def)
  have four: "nat 4 = Suc 3" by simp
  have gv': "b_gv (backend e') = [- 2.8, 9.6, 0] @ replicate 15 0"
    unfolding s(2)
    by (simp add: example_integrate_pd_funpow setPdTarget_def example_env_turned_fields)
  have gc': "b_gc (backend e') = [0, 0, 0.5, 0.6, 0, 0, 0.8] @ drop 7 (gcInit example_env)"
    unfolding s(2)
    by (simp add: example_integrate_pd_funpow setPdTarget_def example_env_turned_fields)
  have f': "b_generalizedForce (backend e')
        = [0, 0, 0, 0, 0, 0, 15, 0, - 15, 15, 0, - 15, 15, 0, - 15, 15, 0, - 15]"
    unfolding s(2) four example_integrate_pd_force
    by (simp add: setPdTarget_def example_env_turned_fields pt example_env_vectors
        example_action_def eval_nat_numeral)
  have q: "example_quatToRotMat (b_gc (backend e') ! 3, b_gc (backend e') ! 4,
                            b_gc (backend e') ! 5, b_gc (backend e') ! 6)
        = ((- 0.28, - 0.96, 0), (0.96, - 0.28, 0), (0, 0, 1))"
    unfolding gc' by (simp add: example_quatToRotMat_def)
  have v: "b_gv (backend e') ! 0 = - 2.8" "b_gv (backend e') ! 1 = 9.6"
    "b_gv (backend e') ! 2 = 0"
    unfolding gv' by simp_all
  from s(3) q have
    x: "fst (bodyLinearVel e') =
          - 0.28 * b_gv (backend e') ! 0 + 0.96 * b_gv (backend e') ! 1
          + 0 * b_gv (backend e') ! 2"
    and r: "re = - (4 / 10 ^ 5) * (\<Sum>f\<leftarrow>b_generalizedForce (backend e'). f * f)
             + 0.3 * min 4 (- 0.28 * b_gv (backend e') ! 0 + 0.96 * b_gv (backend e') ! 1
                            + 0 * b_gv (backend e') ! 2)"
    by blast+
  have x10: "fst (bodyLinearVel e') = 10" unfolding x v by simp
  have r1: "re = - (4 / 10 ^ 5) * 1800 + 0.3 * 4" unfolding r v f' by simp
  have r2: "re = 1.128" unfolding r1 by simp
  have "\<exists>re e'. step example_integrate_pd example_quatToRotMat example_env_turned example_action
               = Returns re e' \<and>
      example_quatToRotMat (b_gc (backend e') ! 3, b_gc (backend e') ! 4,
                            b_gc (backend e') ! 5, b_gc (backend e') ! 6)
        = ((- 0.28, - 0.96, 0), (0.96, - 0.28, 0), (0, 0, 1)) \<and>
      b_gv (backend e') ! 0 = - 2.8 \<and> b_gv (backend e') ! 1 = 9.6 \<and>
      b_gv (backend e') ! 2 = 0 \<and>
      fst (bodyLinearVel e') = 10 \<and>
      b_generalizedForce (backend e')
        = [0, 0, 0, 0, 0, 0, 15, 0, - 15, 15, 0, - 15, 15, 0, - 15, 15, 0, - 15] \<and>
      re = - (4 / 10 ^ 5) * 1800 + 0.3 * 4 \<and> re = 1.128"
    by (intro exI conjI) (rule s(1), rule q, rule v, rule v, rule v, rule x10, rule f', rule r1,
        rule r2)
  with env_ok_example_turned keeps_dims_example_pd h3 h4 show ?thesis by (intro conjI)
qed

lemma contact_loop_iff: "contact_loop feet cs \<longleftrightarrow> (\<exists>c\<in>set cs. c \<notin> feet)"
  by (induction cs) auto

text \<open>C4. \<open>isTerminalState\<close> returns true together with the terminal reward coefficient exactly
  when some contact of the robot is on a body outside the foot set; otherwise, also when
  there is no contact, it returns false together with 0. The environment is returned as it
  was.\<close>

theorem isTerminalState_contacts:
  "isTerminalState e terminalReward =
     Returns (if (\<exists>c\<in>set (b_contacts (backend e)). c \<notin> footIndices e)
              then (True, terminalRewardCoeff e) else (False, 0)) e"
  by (simp add: isTerminalState_def contact_loop_iff Let_def)

theorem isTerminalState_contacts_witness:
  "isTerminalState (example_env_contacts [3, 0, 6]) 0
     = Returns (True, - 10) (example_env_contacts [3, 0, 6]) \<and>
   isTerminalState (example_env_contacts [3, 12, 6, 9]) 0
     = Returns (False, 0) (example_env_contacts [3, 12, 6, 9]) \<and>
   isTerminalState (example_env_contacts []) 0
     = Returns (False, 0) (example_env_contacts [])"
  using isTerminalState_contacts[of "example_env_contacts [3, 0, 6]" 0]
    isTerminalState_contacts[of "example_env_contacts [3, 12, 6, 9]" 0]
    isTerminalState_contacts[of "example_env_contacts []" 0]
  by (simp add: example_env_contacts_def example_env_fields)

lemma step_backend:
  assumes "env_ok e" and "nat n = 0 \<or> keeps_dims integrate"
    and "int (length action) = actionDim e" and "loop_bound e = Inr n"
  shows "\<exists>re e'. step integrate quatToRotMat e action = Returns re e' \<and>
      backend e' = (integrate ^^ nat n) (setPdTarget (pTarget e') (vTarget e') (backend e)) \<and>
      e' = observed quatToRotMat ((integrate_body integrate ^^ nat n) (targeted e action))"
  using step_returns[OF assms, of quatToRotMat]
  by (simp add: observed_fields funpow_fields targeted_fields)

lemma env_ok_example_timed: "env_ok (example_env_timed c s)"
  unfolding example_env_timed_def
  by (rule setSimulationTimeStep_env_ok[OF setControlTimeStep_env_ok[OF env_ok_example]])

lemma example_env_timed_fields:
  "actionDim (example_env_timed c s) = 12"
  "control_dt (example_env_timed c s) = c"
  "simulation_dt (example_env_timed c s) = s"
  "b_gc (backend (example_env_timed c s)) = b_gc (backend example_env)"
  by (simp_all add: example_env_timed_def setControlTimeStep_def setSimulationTimeStep_def
      example_env_fields(1-6))

lemma example_action_timed: "int (length example_action) = actionDim (example_env_timed c s)"
  by (simp add: example_action_def example_env_timed_fields)

text \<open>Two pairs of time steps at which rounding decides the bound: the exact quotient plus
  \<open>10^(-10)\<close> is below 3 (below 1), the \<^verbatim>\<open>double\<close> sum is 3 (is 1), and so is the bound. The
  numbers are the \<^verbatim>\<open>double\<close>s written 0.8999999999699999 and 0.3, and 0.08799999999119999
  and 0.088.\<close>

lemma loop_bound_rounds_to_3:
  "loop_bound (example_env_timed (2026619832249169 / 2 ^ 51) (5404319552844595 / 2 ^ 54))
     = Inr 3"
  "\<lfloor>(2026619832249169 / 2 ^ 51) / (5404319552844595 / 2 ^ 54) + 1 / 10 ^ 10 :: real\<rfloor> = 2"
  by (rule loop_bound_is[OF example_env_timed_fields(3,2) loop_value_rounds_to_3])
     (simp_all add: double_to_int_def)

lemma loop_bound_rounds_to_1:
  "loop_bound (example_env_timed (6341068274703551 / 2 ^ 56) (3170534137668829 / 2 ^ 55))
     = Inr 1"
  "\<lfloor>(6341068274703551 / 2 ^ 56) / (3170534137668829 / 2 ^ 55) + 1 / 10 ^ 10 :: real\<rfloor> = 0"
  by (rule loop_bound_is[OF example_env_timed_fields(3,2) loop_value_rounds_to_1])
     (simp_all add: double_to_int_def)

text \<open>C5, as stated, fails: with \<open>control_dt = 10^10\<close> and \<open>simulation_dt = 1\<close> the formula
  gives \<open>10^10\<close> sub-steps, but this value has no conversion to \<^verbatim>\<open>int\<close> and the step does not
  get to its loop.\<close>

theorem step_substeps_counterexample:
  "\<lfloor>control_dt (example_env_timed (10 ^ 10) 1) / simulation_dt (example_env_timed (10 ^ 10) 1)
      + 1 / 10 ^ 10\<rfloor> = 10 ^ 10 \<and>
   \<lfloor>loop_value (control_dt (example_env_timed (10 ^ 10) 1))
      (simulation_dt (example_env_timed (10 ^ 10) 1))\<rfloor> = 10 ^ 10 \<and>
   step example_integrate example_quatToRotMat (example_env_timed (10 ^ 10) 1) example_action
     = Aborts UndefinedConversion (targeted (example_env_timed (10 ^ 10) 1) example_action)"
proof -
  have lv: "loop_value (10 ^ 10) 1 = 10 ^ 10"
    using loop_value_huge by simp
  have a: "\<lfloor>control_dt (example_env_timed (10 ^ 10) 1)
              / simulation_dt (example_env_timed (10 ^ 10) 1) + 1 / 10 ^ 10\<rfloor> = 10 ^ 10"
    unfolding example_env_timed_fields by simp
  have b: "\<lfloor>loop_value (control_dt (example_env_timed (10 ^ 10) 1))
      (simulation_dt (example_env_timed (10 ^ 10) 1))\<rfloor> = 10 ^ 10"
    unfolding example_env_timed_fields lv by simp
  have lb: "loop_bound (example_env_timed (10 ^ 10) 1) = Inl UndefinedConversion"
  proof (rule loop_bound_undefined)
    show "simulation_dt (example_env_timed (10 ^ 10) 1) = 0 \<or>
       loop_value (control_dt (example_env_timed (10 ^ 10) 1))
         (simulation_dt (example_env_timed (10 ^ 10) 1)) \<le> - (2 ^ 31) - 1 \<or>
       2 ^ 31 \<le> loop_value (control_dt (example_env_timed (10 ^ 10) 1))
         (simulation_dt (example_env_timed (10 ^ 10) 1))"
      unfolding example_env_timed_fields lv by simp
  qed
  show ?thesis
    using a b step_aborts[OF env_ok_example_timed example_action_timed lb] by (intro conjI)
qed

text \<open>C5, amended. In a well-formed environment, for an action of length \<open>actionDim\<close> and
  an integrator that keeps the sizes of the state vectors: when \<open>simulation_dt\<close> is not zero
  and the value \<open>x\<close> of \<^verbatim>\<open>control_dt_ / simulation_dt_ + 1e-10\<close> in \<^verbatim>\<open>double\<close> arithmetic lies
  strictly between \<open>-2^31 - 1\<close> and \<open>2^31\<close>, \<open>step\<close> hands the targets to the robot and then
  applies the integrator exactly \<open>floor x\<close> times, no time when that is negative; with the
  \<^verbatim>\<open>double\<close>s nearest to 0.02 and 0.005 as time steps, exactly 4 times.\<close>

theorem step_substeps:
  assumes "env_ok e" and "keeps_dims integrate" and "int (length action) = actionDim e"
    and "simulation_dt e \<noteq> 0"
    and "- (2 ^ 31) - 1 < loop_value (control_dt e) (simulation_dt e)"
    and "loop_value (control_dt e) (simulation_dt e) < 2 ^ 31"
  shows "\<exists>re e'. step integrate quatToRotMat e action = Returns re e' \<and>
      backend e' = (integrate ^^ nat \<lfloor>loop_value (control_dt e) (simulation_dt e)\<rfloor>)
                     (setPdTarget (pTarget e') (vTarget e') (backend e)) \<and>
      (control_dt e = round_double 0.02 \<and> simulation_dt e = round_double 0.005 \<longrightarrow>
         backend e' = (integrate ^^ 4) (setPdTarget (pTarget e') (vTarget e') (backend e)))"
proof -
  obtain n where n: "loop_bound e = Inr n"
    "nat n = nat \<lfloor>loop_value (control_dt e) (simulation_dt e)\<rfloor>"
    using loop_bound_defined[OF assms(4,5,6)] by blast
  obtain re e' where s: "step integrate quatToRotMat e action = Returns re e'"
    "backend e' = (integrate ^^ nat n) (setPdTarget (pTarget e') (vTarget e') (backend e))"
    using step_backend[OF assms(1) disjI2[OF assms(2)] assms(3) n(1), of quatToRotMat] by blast
  have four: "control_dt e = round_double 0.02 \<and> simulation_dt e = round_double 0.005
      \<longrightarrow> nat n = 4"
  proof
    assume a: "control_dt e = round_double 0.02 \<and> simulation_dt e = round_double 0.005"
    have lv: "loop_value (control_dt e) (simulation_dt e) = 2251799813741543 / 2 ^ 49"
      by (simp only: a round_double_002 round_double_0005 loop_value_002_0005)
    show "nat n = 4" unfolding n(2) lv by simp
  qed
  have bk: "backend e' = (integrate ^^ nat \<lfloor>loop_value (control_dt e) (simulation_dt e)\<rfloor>)
                     (setPdTarget (pTarget e') (vTarget e') (backend e))"
    using s(2) unfolding n(2) .
  have bk4: "control_dt e = round_double 0.02 \<and> simulation_dt e = round_double 0.005 \<longrightarrow>
         backend e' = (integrate ^^ 4) (setPdTarget (pTarget e') (vTarget e') (backend e))"
    using s(2) four by auto
  show ?thesis by (intro exI conjI) (rule s(1), rule bk, rule bk4)
qed

theorem step_substeps_witness:
  "env_ok example_env \<and> keeps_dims example_integrate \<and>
   int (length example_action) = actionDim example_env \<and>
   simulation_dt example_env \<noteq> 0 \<and>
   - (2 ^ 31) - 1 < loop_value (control_dt example_env) (simulation_dt example_env) \<and>
   loop_value (control_dt example_env) (simulation_dt example_env) < 2 ^ 31 \<and>
   control_dt example_env = round_double 0.02 \<and>
   simulation_dt example_env = round_double 0.005 \<and>
   (\<exists>re e'. step example_integrate example_quatToRotMat example_env example_action
               = Returns re e' \<and>
      backend e' = (example_integrate ^^ 4)
                     (setPdTarget (pTarget e') (vTarget e') (backend example_env)))"
proof -
  have h3: "int (length example_action) = actionDim example_env"
    by (simp add: example_action_def example_env_fields)
  have lv: "loop_value (control_dt example_env) (simulation_dt example_env)
              = 2251799813741543 / 2 ^ 49"
    by (simp only: example_env_timing loop_value_002_0005)
  have h: "simulation_dt example_env \<noteq> 0"
    "- (2 ^ 31) - 1 < loop_value (control_dt example_env) (simulation_dt example_env)"
    "loop_value (control_dt example_env) (simulation_dt example_env) < 2 ^ 31"
    unfolding lv by (simp_all add: example_env_timing)
  note t = example_env_fields(7,8)
  from step_substeps[OF env_ok_example keeps_dims_example h3 h, of example_quatToRotMat] t
  have "\<exists>re e'. step example_integrate example_quatToRotMat example_env example_action
               = Returns re e' \<and>
      backend e' = (example_integrate ^^ 4)
                     (setPdTarget (pTarget e') (vTarget e') (backend example_env))"
    by blast
  with env_ok_example keeps_dims_example h3 h t show ?thesis by (intro conjI)
qed




lemma round_double_nonneg:
  assumes "0 \<le> x"
  shows "0 \<le> round_double x"
proof (cases "x = 0")
  case True
  then show ?thesis by (simp add: round_double_def)
next
  case False
  define e where "e = max (binade x) (- 1022) - 52"
  have p: "(0::real) < 2 powi e" by simp
  then have "of_int 0 \<le> x / 2 powi e" using assms by simp
  then have "0 \<le> round_half_even (x / 2 powi e)" by (rule round_half_even_ge)
  then have "(0::real) \<le> of_int (round_half_even (x / 2 powi e)) * 2 powi e"
    using p by simp
  then show ?thesis using False by (simp add: round_double_def Let_def e_def)
qed

lemma round_double_eps_bounds:
  "0 < round_double (1 / 10 ^ 10)" "round_double (1 / 10 ^ 10) < 1 / 2"
  unfolding round_double_eps by simp_all

text \<open>When the rounded quotient plus \<^verbatim>\<open>1e-10\<close> lies between an integer \<open>k\<close> and \<open>k + 1/2\<close>, the
  loop value truncates to \<open>k\<close>, and \<open>k\<close> is the quotient rounded to the nearest integer.\<close>

lemma loop_value_near_integer:
  assumes "1 \<le> k" and "k < 2 ^ 31"
    and "of_int k \<le> round_double (c / s) + round_double (1 / 10 ^ 10)"
    and "round_double (c / s) + round_double (1 / 10 ^ 10) \<le> of_int k + 1 / 2"
  shows "\<lfloor>loop_value c s\<rfloor> = k" and "round (round_double (c / s)) = k"
proof -
  let ?x = "round_double (c / s) + round_double (1 / 10 ^ 10)"
  have k: "(1::real) \<le> of_int k" "(of_int k :: real) < 2 ^ 31" using assms(1,2) by simp_all
  have x1: "1 \<le> ?x" using k(1) assms(3) by linarith
  have x2: "?x < 2 ^ 52" using k(2) assms(4) by simp
  have g1: "2 * (of_int k :: real) = of_int (2 * k)" by simp
  have g2: "2 * (of_int k + 1 / 2 :: real) = of_int (2 * k + 1)" by simp
  have lo: "of_int k \<le> round_double ?x"
    using round_double_grid(1)[OF x1 x2 g1] assms(3) by simp
  have hi: "round_double ?x \<le> of_int k + 1 / 2"
    using round_double_grid(2)[OF x1 x2 g2] assms(4) by simp
  have "\<lfloor>round_double ?x\<rfloor> = k"
    using lo hi by (intro floor_unique) simp_all
  then show "\<lfloor>loop_value c s\<rfloor> = k" by (simp only: loop_value_def)
  have "\<lfloor>round_double (c / s) + 1 / 2\<rfloor> = k"
    using assms(3,4) round_double_eps_bounds by (intro floor_unique) simp_all
  then show "round (round_double (c / s)) = k" by (simp only: round_def)
qed

lemma loop_value_integer_ratio:
  assumes "c / s = of_int k" and "1 \<le> k" and "k < 2 ^ 31"
  shows "\<lfloor>loop_value c s\<rfloor> = k"
proof -
  have "k < 2 ^ 52" using assms(3) by simp
  from round_double_of_int[OF assms(2) this]
  have q: "round_double (c / s) = of_int k" by (simp only: assms(1))
  have lo: "of_int k \<le> round_double (c / s) + round_double (1 / 10 ^ 10)"
    unfolding q using round_double_eps_bounds(1) by linarith
  have hi: "round_double (c / s) + round_double (1 / 10 ^ 10) \<le> of_int k + 1 / 2"
    unfolding q using round_double_eps_bounds(2) by linarith
  show ?thesis by (rule loop_value_near_integer(1)[OF assms(2,3) lo hi])
qed

lemma loop_value_nonneg:
  assumes "0 \<le> c / s"
  shows "0 \<le> loop_value c s"
proof -
  have "0 \<le> round_double (c / s)" using assms by (rule round_double_nonneg)
  then have "0 \<le> round_double (c / s) + round_double (1 / 10 ^ 10)"
    using round_double_eps_bounds(1) by simp
  then show ?thesis unfolding loop_value_def by (rule round_double_nonneg)
qed

lemma example_integrate_neq:
  assumes "b_gc b \<noteq> []"
  shows "(example_integrate ^^ 1) b \<noteq> (example_integrate ^^ 2) b"
proof
  assume "(example_integrate ^^ 1) b = (example_integrate ^^ 2) b"
  then have "b_gc ((example_integrate ^^ 1) b) ! 0 = b_gc ((example_integrate ^^ 2) b) ! 0"
    by simp
  then show False
    unfolding example_integrate_funpow(4)[OF assms] by simp
qed

lemma loop_bound_example_7_4:
  "loop_bound (example_env_timed (8070450532247929 / 2 ^ 60) (1152921504606847 / 2 ^ 58))
     = Inr 1"
  by (rule loop_bound_is[OF example_env_timed_fields(3,2) loop_value_0007_0004])
     (simp_all add: double_to_int_def)

text \<open>C6, as stated, fails: with the \<^verbatim>\<open>double\<close>s nearest to 0.007 and 0.004 as control and
  simulation time step the ratio is 1.75 and rounds to 2, but \<open>step\<close> applies the integrator
  once.\<close>

theorem substeps_round_counterexample:
  "round_double 0.007 = 8070450532247929 / 2 ^ 60 \<and>
   round_double 0.004 = 1152921504606847 / 2 ^ 58 \<and>
   simulation_dt (example_env_timed (8070450532247929 / 2 ^ 60) (1152921504606847 / 2 ^ 58))
     \<le> control_dt (example_env_timed (8070450532247929 / 2 ^ 60) (1152921504606847 / 2 ^ 58)) \<and>
   round (control_dt (example_env_timed (8070450532247929 / 2 ^ 60) (1152921504606847 / 2 ^ 58))
          / simulation_dt
              (example_env_timed (8070450532247929 / 2 ^ 60) (1152921504606847 / 2 ^ 58))) = 2 \<and>
   step example_integrate example_quatToRotMat
       (example_env_timed (8070450532247929 / 2 ^ 60) (1152921504606847 / 2 ^ 58))
       example_action =
     Returns
       (result (step example_integrate example_quatToRotMat
          (example_env_timed (8070450532247929 / 2 ^ 60) (1152921504606847 / 2 ^ 58))
          example_action))
       (final_state (step example_integrate example_quatToRotMat
          (example_env_timed (8070450532247929 / 2 ^ 60) (1152921504606847 / 2 ^ 58))
          example_action)) \<and>
   backend (final_state (step example_integrate example_quatToRotMat
       (example_env_timed (8070450532247929 / 2 ^ 60) (1152921504606847 / 2 ^ 58))
       example_action)) =
     (example_integrate ^^ 1)
       (backend (targeted
          (example_env_timed (8070450532247929 / 2 ^ 60) (1152921504606847 / 2 ^ 58))
          example_action)) \<and>
   backend (final_state (step example_integrate example_quatToRotMat
       (example_env_timed (8070450532247929 / 2 ^ 60) (1152921504606847 / 2 ^ 58))
       example_action)) \<noteq>
     (example_integrate ^^ 2)
       (backend (targeted
          (example_env_timed (8070450532247929 / 2 ^ 60) (1152921504606847 / 2 ^ 58))
          example_action))"
proof -
  let ?e = "example_env_timed (8070450532247929 / 2 ^ 60) (1152921504606847 / 2 ^ 58)"
  note lb = loop_bound_example_7_4
  have le: "simulation_dt ?e \<le> control_dt ?e"
    unfolding example_env_timed_fields by simp
  have rd: "round (control_dt ?e / simulation_dt ?e) = 2"
    unfolding example_env_timed_fields by (simp add: round_def)
  have st: "step example_integrate example_quatToRotMat ?e example_action =
      Returns (- (4 / 10 ^ 5) * squaredNorm (b_generalizedForce
                   (backend (observed example_quatToRotMat
                      ((integrate_body example_integrate ^^ nat 1)
                         (targeted ?e example_action)))))
                + 0.3 * min 4.0 (fst (bodyLinearVel
                   (observed example_quatToRotMat
                      ((integrate_body example_integrate ^^ nat 1)
                         (targeted ?e example_action))))))
         (observed example_quatToRotMat
            ((integrate_body example_integrate ^^ nat 1)
               (targeted ?e example_action)))"
    by (rule step_returns[OF env_ok_example_timed disjI2[OF keeps_dims_example]
          example_action_timed lb])
  have bk: "backend (final_state
       (step example_integrate example_quatToRotMat ?e example_action)) =
     (example_integrate ^^ 1) (backend (targeted ?e example_action))"
    unfolding st by (simp add: observed_fields integrate_body_eq)
  have ne: "b_gc (backend (targeted ?e example_action)) \<noteq> []"
    by (simp add: targeted_fields setPdTarget_def example_env_timed_fields
        example_env_def ctor_defs example_world_def example_defaults_def)
  have df: "backend (final_state
       (step example_integrate example_quatToRotMat ?e example_action)) \<noteq>
     (example_integrate ^^ 2) (backend (targeted ?e example_action))"
    unfolding bk by (rule example_integrate_neq[OF ne])
  have ret: "step example_integrate example_quatToRotMat ?e example_action =
     Returns (result (step example_integrate example_quatToRotMat ?e example_action))
       (final_state (step example_integrate example_quatToRotMat ?e example_action))"
    unfolding st by simp
  show ?thesis
    using round_double_0007 round_double_0004 le rd ret bk df by (intro conjI)
qed

text \<open>C6, amended. In a well-formed environment, for an action of length \<open>actionDim\<close> and
  an integrator that keeps the sizes of the state vectors: when
  \<open>0 < simulation_dt \<le> control_dt\<close> and the value \<open>x\<close> of
  \<^verbatim>\<open>control_dt_ / simulation_dt_ + 1e-10\<close> in \<^verbatim>\<open>double\<close> arithmetic is below \<open>2^31\<close>, \<open>step\<close>
  applies the integrator exactly \<open>floor x\<close> times. This number is the \<^verbatim>\<open>double\<close> quotient \<open>q\<close>
  rounded to the nearest integer whenever \<open>q\<close> plus the \<^verbatim>\<open>double\<close> \<^verbatim>\<open>1e-10\<close> lies between an
  integer \<open>k\<close> of \<open>[1, 2^31)\<close> and \<open>k + 1/2\<close>, both being \<open>k\<close> then; in particular it is the
  ratio itself when the ratio of the two stored time steps is an integer below \<open>2^31\<close>.\<close>

theorem substeps_floor_round:
  assumes "env_ok e" and "keeps_dims integrate" and "int (length action) = actionDim e"
    and "0 < simulation_dt e" and "simulation_dt e \<le> control_dt e"
    and "loop_value (control_dt e) (simulation_dt e) < 2 ^ 31"
  shows "\<exists>re e'. step integrate quatToRotMat e action = Returns re e' \<and>
      backend e' = (integrate ^^ nat \<lfloor>loop_value (control_dt e) (simulation_dt e)\<rfloor>)
                     (setPdTarget (pTarget e') (vTarget e') (backend e)) \<and>
      (\<forall>k. 1 \<le> k \<and> k < 2 ^ 31 \<and>
           of_int k \<le> round_double (control_dt e / simulation_dt e)
                        + round_double (1 / 10 ^ 10) \<and>
           round_double (control_dt e / simulation_dt e) + round_double (1 / 10 ^ 10)
             \<le> of_int k + 1 / 2 \<longrightarrow>
           \<lfloor>loop_value (control_dt e) (simulation_dt e)\<rfloor> = k \<and>
           round (round_double (control_dt e / simulation_dt e)) = k) \<and>
      (control_dt e / simulation_dt e \<in> \<int> \<and> control_dt e / simulation_dt e < 2 ^ 31 \<longrightarrow>
         \<lfloor>loop_value (control_dt e) (simulation_dt e)\<rfloor>
           = round (control_dt e / simulation_dt e))"
proof -
  let ?c = "control_dt e" and ?s = "simulation_dt e"
  have r1: "1 \<le> ?c / ?s" using assms(4,5) by simp
  then have "0 \<le> ?c / ?s" by simp
  then have "0 \<le> loop_value ?c ?s" by (rule loop_value_nonneg)
  then have h: "?s \<noteq> 0" "- (2 ^ 31) - 1 < loop_value ?c ?s"
    using assms(4) by simp_all
  obtain n where n: "loop_bound e = Inr n" "nat n = nat \<lfloor>loop_value ?c ?s\<rfloor>"
    using loop_bound_defined[OF h assms(6)] by blast
  obtain re e' where s: "step integrate quatToRotMat e action = Returns re e'"
    "backend e' = (integrate ^^ nat n) (setPdTarget (pTarget e') (vTarget e') (backend e))"
    using step_backend[OF assms(1) disjI2[OF assms(2)] assms(3) n(1), of quatToRotMat] by blast
  have bk: "backend e' = (integrate ^^ nat \<lfloor>loop_value ?c ?s\<rfloor>)
                     (setPdTarget (pTarget e') (vTarget e') (backend e))"
    using s(2) unfolding n(2) .
  have near: "\<forall>k. 1 \<le> k \<and> k < 2 ^ 31 \<and>
           of_int k \<le> round_double (?c / ?s) + round_double (1 / 10 ^ 10) \<and>
           round_double (?c / ?s) + round_double (1 / 10 ^ 10) \<le> of_int k + 1 / 2 \<longrightarrow>
           \<lfloor>loop_value ?c ?s\<rfloor> = k \<and> round (round_double (?c / ?s)) = k"
    using loop_value_near_integer by blast
  have int: "?c / ?s \<in> \<int> \<and> ?c / ?s < 2 ^ 31 \<longrightarrow>
         \<lfloor>loop_value ?c ?s\<rfloor> = round (?c / ?s)"
  proof
    assume a: "?c / ?s \<in> \<int> \<and> ?c / ?s < 2 ^ 31"
    then obtain k where k: "?c / ?s = of_int k" by (auto elim: Ints_cases)
    have k1: "1 \<le> k" using r1 unfolding k by simp
    have "(of_int k :: real) < of_int (2 ^ 31)" using a unfolding k by simp
    then have k2: "k < 2 ^ 31" by (simp only: of_int_less_iff)
    have "\<lfloor>loop_value ?c ?s\<rfloor> = k" by (rule loop_value_integer_ratio[OF k k1 k2])
    then show "\<lfloor>loop_value ?c ?s\<rfloor> = round (?c / ?s)" by (simp add: k)
  qed
  show ?thesis
    by (intro exI conjI) (rule s(1), rule bk, rule near, rule int)
qed

theorem substeps_floor_round_witness:
  "env_ok (example_env_timed (8070450532247929 / 2 ^ 60) (1152921504606847 / 2 ^ 58)) \<and>
   keeps_dims example_integrate \<and>
   int (length example_action)
     = actionDim (example_env_timed (8070450532247929 / 2 ^ 60) (1152921504606847 / 2 ^ 58)) \<and>
   (\<exists>re e'. step example_integrate example_quatToRotMat
               (example_env_timed (8070450532247929 / 2 ^ 60) (1152921504606847 / 2 ^ 58))
               example_action = Returns re e' \<and>
      backend e' = (example_integrate ^^ 1)
        (setPdTarget (pTarget e') (vTarget e')
           (backend
              (example_env_timed (8070450532247929 / 2 ^ 60) (1152921504606847 / 2 ^ 58))))) \<and>
   env_ok example_env \<and> int (length example_action) = actionDim example_env \<and>
   0 < simulation_dt example_env \<and> simulation_dt example_env \<le> control_dt example_env \<and>
   control_dt example_env / simulation_dt example_env \<in> \<int> \<and>
   \<lfloor>loop_value (control_dt example_env) (simulation_dt example_env)\<rfloor> = 4 \<and>
   round (control_dt example_env / simulation_dt example_env) = 4"
proof -
  let ?e = "example_env_timed (8070450532247929 / 2 ^ 60) (1152921504606847 / 2 ^ 58)"
  have lv: "loop_value (control_dt ?e) (simulation_dt ?e) = 985162418543591 / 2 ^ 49"
    by (simp only: example_env_timed_fields loop_value_0007_0004)
  have h: "0 < simulation_dt ?e" "simulation_dt ?e \<le> control_dt ?e"
    "loop_value (control_dt ?e) (simulation_dt ?e) < 2 ^ 31"
    unfolding lv by (simp_all add: example_env_timed_fields)
  have fl: "nat \<lfloor>loop_value (control_dt ?e) (simulation_dt ?e)\<rfloor> = 1"
    unfolding lv by simp
  from substeps_floor_round[OF env_ok_example_timed keeps_dims_example example_action_timed h,
      of example_quatToRotMat]
  obtain re e' where
    "step example_integrate example_quatToRotMat ?e example_action = Returns re e'"
    "backend e' = (example_integrate ^^ 1)
                     (setPdTarget (pTarget e') (vTarget e') (backend ?e))"
    unfolding fl by blast
  then have a: "\<exists>re e'. step example_integrate example_quatToRotMat ?e example_action
               = Returns re e' \<and>
      backend e' = (example_integrate ^^ 1)
                     (setPdTarget (pTarget e') (vTarget e') (backend ?e))"
    by blast
  have g3: "int (length example_action) = actionDim example_env"
    by (simp add: example_action_def example_env_fields)
  have lv4: "loop_value (control_dt example_env) (simulation_dt example_env)
               = 2251799813741543 / 2 ^ 49"
    by (simp only: example_env_timing loop_value_002_0005)
  have q4: "control_dt example_env / simulation_dt example_env = of_int 4"
    unfolding example_env_timing by simp
  have g: "0 < simulation_dt example_env"
    "simulation_dt example_env \<le> control_dt example_env"
    "loop_value (control_dt example_env) (simulation_dt example_env) < 2 ^ 31"
    unfolding lv4 by (simp_all add: example_env_timing)
  have i4: "control_dt example_env / simulation_dt example_env \<in> \<int>"
    unfolding q4 by (rule Ints_of_int)
  have lt: "control_dt example_env / simulation_dt example_env < 2 ^ 31"
    unfolding q4 by simp
  from substeps_floor_round[OF env_ok_example keeps_dims_example g3 g,
      of example_quatToRotMat] i4 lt
  have b: "\<lfloor>loop_value (control_dt example_env) (simulation_dt example_env)\<rfloor>
     = round (control_dt example_env / simulation_dt example_env)"
    by blast
  have r4: "round (control_dt example_env / simulation_dt example_env) = 4"
    unfolding q4 by simp
  have f4: "\<lfloor>loop_value (control_dt example_env) (simulation_dt example_env)\<rfloor> = 4"
    using b r4 by simp
  show ?thesis
    using env_ok_example_timed keeps_dims_example example_action_timed a env_ok_example g3
      g(1,2) i4 f4 r4
    by (intro conjI)
qed

text \<open>C7. When one of the six arguments of \<open>setInitConstants\<close> has a length different from
  its dimension (\<open>gcDim\<close>, \<open>gvDim\<close>, \<open>actionDim\<close> twice, \<open>gvDim\<close> twice), the call aborts on
  the assertion that compares that length, in the state in which it was called: nothing has
  been stored.\<close>

theorem setInitConstants_dimension_mismatch:
  assumes "int (length gcInit') \<noteq> gcDim e \<or> int (length gvInit') \<noteq> gvDim e \<or>
           int (length actionMean') \<noteq> actionDim e \<or> int (length actionStd') \<noteq> actionDim e \<or>
           int (length pGain) \<noteq> gvDim e \<or> int (length dGain) \<noteq> gvDim e"
  shows "\<exists>msg. setInitConstants e gcInit' gvInit' actionMean' actionStd' pGain dGain
                 = Aborts (AssertionFailed msg) e \<and>
               msg \<in> {''gcInit.size() == gcDim_'', ''gvInit.size() == gvDim_'',
                       ''actionMean.size() == actionDim_'', ''actionStd.size() == actionDim_'',
                       ''pGain.size() == gvDim_'', ''dGain.size() == gvDim_''}"
  using assms unfolding setInitConstants_def by (simp split: if_splits)

theorem setInitConstants_dimension_mismatch_witness:
  "int (length (replicate 18 (0::real))) \<noteq> gcDim example_env \<and>
   setInitConstants example_env (replicate 18 0) (replicate 18 0)
       (replicate 12 0) (replicate 12 1) (replicate 18 50) (replicate 18 0.2)
     = Aborts (AssertionFailed ''gcInit.size() == gcDim_'') example_env"
proof -
  have h: "int (length (replicate 18 (0::real))) \<noteq> gcDim example_env"
    by (simp add: example_env_fields)
  from setInitConstants_dimension_mismatch[of "replicate 18 0" example_env "replicate 18 0"
      "replicate 12 0" "replicate 12 1" "replicate 18 50" "replicate 18 0.2", OF disjI1[OF h]]
  obtain msg where m: "setInitConstants example_env (replicate 18 0) (replicate 18 0)
       (replicate 12 0) (replicate 12 1) (replicate 18 50) (replicate 18 0.2)
     = Aborts (AssertionFailed msg) example_env"
    by blast
  have "setInitConstants example_env (replicate 18 0) (replicate 18 0)
       (replicate 12 0) (replicate 12 1) (replicate 18 50) (replicate 18 0.2)
     = Aborts (AssertionFailed ''gcInit.size() == gcDim_'') example_env"
    using h by (simp add: setInitConstants_def)
  with h show ?thesis by blast
qed

lemma observed_idem: "observed q (observed q e) = observed q e"
  by (simp add: observed_def Let_def)

text \<open>C8. In a well-formed environment \<open>reset\<close> returns: it has put the robot into the
  state \<open>(gcInit, gvInit)\<close>, left these two as they were, and recomputed the observation,
  which is the observation of \<open>(gcInit, gvInit)\<close>. \<open>init\<close> returns the same state; \<open>init\<close> and
  \<open>reset\<close> are the same function. A second \<open>reset\<close> right after the first returns the very
  same state, hence the same observation vector.\<close>

theorem reset_twice:
  assumes "env_ok e"
  shows "\<exists>e1. reset quatToRotMat e = Returns () e1 \<and>
              init quatToRotMat e = Returns () e1 \<and>
              b_gc (backend e1) = gcInit e \<and> b_gv (backend e1) = gvInit e \<and>
              gc e1 = gcInit e \<and> gv e1 = gvInit e \<and>
              gcInit e1 = gcInit e \<and> gvInit e1 = gvInit e \<and>
              obDouble e1 = spec_observation quatToRotMat (nat (nJoints e))
                              (gcInit e) (gvInit e) \<and>
              reset quatToRotMat e1 = Returns () e1 \<and>
              obDouble (final_state (reset quatToRotMat e1)) = obDouble e1 \<and>
              init = reset"
proof -
  let ?e0 = "e\<lparr>backend := setState (gcInit e) (gvInit e) (backend e)\<rparr>"
  let ?e1 = "observed quatToRotMat ?e0"
  have r1: "reset quatToRotMat e = Returns () ?e1" by (rule reset_returns[OF assms])
  have ir: "init = reset" by (intro ext) (simp add: init_def reset_def)
  have i1: "init quatToRotMat e = Returns () ?e1" unfolding ir by (rule r1)
  have ok1: "env_ok ?e1" using reset_env_ok[OF assms, of quatToRotMat] unfolding r1 by simp
  have st: "b_gc (backend ?e1) = gcInit e" "b_gv (backend ?e1) = gvInit e"
    "gc ?e1 = gcInit e" "gv ?e1 = gvInit e" "gcInit ?e1 = gcInit e" "gvInit ?e1 = gvInit e"
    "obDouble ?e1 = spec_observation quatToRotMat (nat (nJoints e)) (gcInit e) (gvInit e)"
    by (simp_all add: observed_fields setState_def)
  have same: "?e1\<lparr>backend := setState (gcInit ?e1) (gvInit ?e1) (backend ?e1)\<rparr> = ?e1"
    by (simp add: observed_def Let_def setState_def)
  have r2: "reset quatToRotMat ?e1 = Returns () ?e1"
    unfolding reset_returns[OF ok1] same observed_idem ..
  have o2: "obDouble (final_state (reset quatToRotMat ?e1)) = obDouble ?e1"
    unfolding r2 by simp
  show ?thesis
    by (intro exI conjI)
       (rule r1, rule i1, rule st(1), rule st(2), rule st(3), rule st(4), rule st(5),
        rule st(6), rule st(7), rule r2, rule o2, rule ir)
qed

theorem reset_twice_witness:
  "env_ok example_env \<and>
   b_gc (backend example_env) = [0, 0, 0, 1, 0, 0, 0, 0, 0, 0, 0, 0, 0, 0, 0, 0, 0, 0, 0] \<and>
   obDouble example_env = replicate 34 0 \<and>
   (\<exists>e1. reset example_quatToRotMat example_env = Returns () e1 \<and>
         init example_quatToRotMat example_env = Returns () e1 \<and>
         b_gc (backend e1) = [0, 0, 0.5, 1, 0, 0, 0, 0.03, 0.4, - 0.8, - 0.03, 0.4, - 0.8,
                              0.03, - 0.4, 0.8, - 0.03, - 0.4, 0.8] \<and>
         b_gv (backend e1) = replicate 18 0 \<and>
         obDouble e1 = [0.5, 0, 0, 1,
                        0.03, 0.4, - 0.8, - 0.03, 0.4, - 0.8, 0.03, - 0.4, 0.8, - 0.03, - 0.4, 0.8,
                        0, 0, 0, 0, 0, 0,
                        0, 0, 0, 0, 0, 0, 0, 0, 0, 0, 0, 0] \<and>
         reset example_quatToRotMat e1 = Returns () e1 \<and>
         obDouble (final_state (reset example_quatToRotMat e1)) = obDouble e1)"
proof -
  from reset_twice[OF env_ok_example, of example_quatToRotMat]
  obtain e1 where e1: "reset example_quatToRotMat example_env = Returns () e1"
    "init example_quatToRotMat example_env = Returns () e1"
    "b_gc (backend e1) = gcInit example_env" "b_gv (backend e1) = gvInit example_env"
    "obDouble e1 = spec_observation example_quatToRotMat (nat (nJoints example_env))
                              (gcInit example_env) (gvInit example_env)"
    "reset example_quatToRotMat e1 = Returns () e1"
    "obDouble (final_state (reset example_quatToRotMat e1)) = obDouble e1"
    by blast
  have g: "b_gc (backend e1) = [0, 0, 0.5, 1, 0, 0, 0, 0.03, 0.4, - 0.8, - 0.03, 0.4, - 0.8,
                              0.03, - 0.4, 0.8, - 0.03, - 0.4, 0.8]"
    unfolding e1(3) by (rule example_env_vectors(1))
  have v: "b_gv (backend e1) = replicate 18 0"
    unfolding e1(4) by (rule example_env_vectors(2))
  have ob: "obDouble e1 = [0.5, 0, 0, 1,
                        0.03, 0.4, - 0.8, - 0.03, 0.4, - 0.8, 0.03, - 0.4, 0.8, - 0.03, - 0.4, 0.8,
                        0, 0, 0, 0, 0, 0,
                        0, 0, 0, 0, 0, 0, 0, 0, 0, 0, 0, 0]"
    unfolding e1(5)
    by (simp add: spec_observation_def example_env_vectors example_quatToRotMat_identity
        example_env_fields(1-6) eval_nat_numeral)
  have b0: "b_gc (backend example_env)
              = [0, 0, 0, 1, 0, 0, 0, 0, 0, 0, 0, 0, 0, 0, 0, 0, 0, 0, 0]"
    "obDouble example_env = replicate 34 0"
    by (simp_all add: example_env_def ctor_defs example_world_def example_defaults_def)
  have "\<exists>e1. reset example_quatToRotMat example_env = Returns () e1 \<and>
         init example_quatToRotMat example_env = Returns () e1 \<and>
         b_gc (backend e1) = [0, 0, 0.5, 1, 0, 0, 0, 0.03, 0.4, - 0.8, - 0.03, 0.4, - 0.8,
                              0.03, - 0.4, 0.8, - 0.03, - 0.4, 0.8] \<and>
         b_gv (backend e1) = replicate 18 0 \<and>
         obDouble e1 = [0.5, 0, 0, 1,
                        0.03, 0.4, - 0.8, - 0.03, 0.4, - 0.8, 0.03, - 0.4, 0.8, - 0.03, - 0.4, 0.8,
                        0, 0, 0, 0, 0, 0,
                        0, 0, 0, 0, 0, 0, 0, 0, 0, 0, 0, 0] \<and>
         reset example_quatToRotMat e1 = Returns () e1 \<and>
         obDouble (final_state (reset example_quatToRotMat e1)) = obDouble e1"
    by (intro exI conjI) (rule e1(1), rule e1(2), rule g, rule v, rule ob, rule e1(6), rule e1(7))
  with env_ok_example b0 show ?thesis by (intro conjI)
qed

lemma no_server_aborts:
  assumes "server e = None"
  shows "turnOffVisualization e = Aborts NullPointerDereference e"
    and "turnOnVisualization e = Aborts NullPointerDereference e"
    and "startRecordingVideo e videoName = Aborts NullPointerDereference e"
    and "stopRecordingVideo e = Aborts NullPointerDereference e"
  using assms
  by (simp_all add: turnOffVisualization_def turnOnVisualization_def startRecordingVideo_def
      stopRecordingVideo_def)

lemma WalkerEnv_server:
  assumes "WalkerEnv load dir vis dflt = Inr e"
  shows "server e = None \<longleftrightarrow> \<not> vis"
  using assms
  by (auto simp: ctor_defs split: if_splits)

text \<open>C9 does not hold of the code. The environment constructed without visualisation has
  no server, and each of the four calls dereferences the empty pointer; the destructor and
  the integration loop of \<open>step\<close> test the pointer first.\<close>

theorem visualization_without_server:
  "WalkerEnv example_world ''rsc/robot.urdf'' False example_defaults = Inr example_env \<and>
   server example_env = None \<and>
   turnOffVisualization example_env = Aborts NullPointerDereference example_env \<and>
   turnOnVisualization example_env = Aborts NullPointerDereference example_env \<and>
   startRecordingVideo example_env ''video.mp4'' = Aborts NullPointerDereference example_env \<and>
   stopRecordingVideo example_env = Aborts NullPointerDereference example_env \<and>
   destroy example_env = example_env"
  using example_env_constructed no_server_aborts[of example_env]
  by (simp add: example_env_fields destroy_def)

end
